theory Spec2Isabelle
  imports Complex_Main
begin

section \<open>Bundle adjustment sample: problem store and reprojection residual\<close>

text \<open>
  The development embeds \<^verbatim>\<open>src/openMVG_Samples/bundle_adjustment/bundle_adjustment.cpp\<close>:
  the class \<^verbatim>\<open>BAProblem\<close>, the functor \<^verbatim>\<open>PinholeReprojectionError\<close> and the part of
  \<^verbatim>\<open>main\<close> that fills the problem and creates the residual blocks.

  Scalars. The functor is a template over the scalar type \<^verbatim>\<open>T\<close>. The model is polymorphic
  in a type \<open>'a\<close> that only has to offer the four operations the functor uses
  (\<open>+\<close>, \<open>-\<close>, \<open>*\<close>, \<open>/\<close>); no law is assumed of them, so what is proved of the functor at this
  sort holds for whatever arithmetic the scalars have. \<^verbatim>\<open>double\<close> and \<^verbatim>\<open>T\<close> are the same
  type \<open>'a\<close>, so the conversion \<^verbatim>\<open>T(observed_x)\<close> is the identity. What depends on the
  arithmetic itself (rounding, overflow, division by zero) is stated and evaluated on a
  model of the \<^verbatim>\<open>double\<close> of the program, given below.
\<close>

type_synonym 'a vec3 = "'a \<times> 'a \<times> 'a"

subsection \<open>Memory and the output stream\<close>

text \<open>
  Pointers to scalars are addresses (integers); \<^verbatim>\<open>ptr[k]\<close> is the scalar stored at
  address \<open>ptr + k\<close>. \<^verbatim>\<open>std::cout\<close> is the list of what has been written to it, a formatted
  scalar being kept as the scalar.
\<close>

datatype 'a token = Str string | Num 'a | Endl

record 'a state =
  mem :: "int \<Rightarrow> 'a"
  cout :: "'a token list"

definition rd :: "'a state \<Rightarrow> int \<Rightarrow> int \<Rightarrow> 'a" where
  "rd s ptr k = mem s (ptr + k)"

definition wr :: "int \<Rightarrow> int \<Rightarrow> 'a \<Rightarrow> 'a state \<Rightarrow> 'a state" where
  "wr ptr k v s = s\<lparr>mem := (mem s)(ptr + k := v)\<rparr>"

definition print :: "'a token list \<Rightarrow> 'a state \<Rightarrow> 'a state" where
  "print ts s = s\<lparr>cout := cout s @ ts\<rparr>"

subsection \<open>The reprojection error functor\<close>

record 'a PinholeReprojectionError =
  observed_x :: 'a
  observed_y :: 'a

text \<open>
  \<^verbatim>\<open>ceres::AngleAxisRotatePoint(angle_axis, pt, result)\<close> comes from \<^verbatim>\<open>ceres/rotation.h\<close>,
  which is not among the sources. It is a parameter \<open>rot\<close> of the model: a function of the
  three scalars at \<^verbatim>\<open>angle_axis\<close> and the three at \<^verbatim>\<open>pt\<close> that gives the three scalars it
  stores in \<^verbatim>\<open>result\<close>. The local array \<^verbatim>\<open>T p[3]\<close> is a list of three scalars.
\<close>

definition AngleAxisRotatePoint ::
  "('a vec3 \<Rightarrow> 'a vec3 \<Rightarrow> 'a vec3) \<Rightarrow> (int \<Rightarrow> 'a) \<Rightarrow> (int \<Rightarrow> 'a) \<Rightarrow> 'a list" where
  "AngleAxisRotatePoint rot angle_axis pt =
     (case rot (angle_axis 0, angle_axis 1, angle_axis 2) (pt 0, pt 1, pt 2) of
        (r0, r1, r2) \<Rightarrow> [r0, r1, r2])"

text \<open>Lines 72 to 78: the array \<^verbatim>\<open>p\<close> after the rotation and the three \<^verbatim>\<open>+=\<close>.\<close>

definition transformed ::
  "('a::plus vec3 \<Rightarrow> 'a vec3 \<Rightarrow> 'a vec3) \<Rightarrow> (int \<Rightarrow> 'a) \<Rightarrow> (int \<Rightarrow> 'a) \<Rightarrow> 'a list" where
  "transformed rot camera point =
     (let p = AngleAxisRotatePoint rot camera point;
          p = p[0 := p ! 0 + camera 3];
          p = p[1 := p ! 1 + camera 4];
          p = p[2 := p ! 2 + camera 5]
      in p)"

text \<open>Lines 81 to 87: the locals \<^verbatim>\<open>predicted_x\<close> and \<^verbatim>\<open>predicted_y\<close>.\<close>

definition predicted ::
  "('a::{plus,times,inverse} vec3 \<Rightarrow> 'a vec3 \<Rightarrow> 'a vec3) \<Rightarrow> (int \<Rightarrow> 'a) \<Rightarrow> (int \<Rightarrow> 'a)
     \<Rightarrow> 'a \<times> 'a" where
  "predicted rot camera point =
     (let p = transformed rot camera point;
          xp = p ! 0 / p ! 2;
          yp = p ! 1 / p ! 2;
          focal = camera 6;
          predicted_x = focal * xp;
          predicted_y = focal * yp
      in (predicted_x, predicted_y))"

text \<open>
  \<^verbatim>\<open>operator()\<close>, lines 58 to 99. The arguments \<open>camera\<close>, \<open>point\<close> and \<open>residuals\<close> are
  addresses. Every read of the body (lines 63 to 87) comes before its two writes
  (lines 95 and 96), so the scalars are read in the state the functor is called in.
  The result is the returned flag and the state left behind.
\<close>

definition operator_call ::
  "('a::{plus,minus,times,inverse} vec3 \<Rightarrow> 'a vec3 \<Rightarrow> 'a vec3) \<Rightarrow> 'a PinholeReprojectionError
     \<Rightarrow> int \<Rightarrow> int \<Rightarrow> int \<Rightarrow> 'a state \<Rightarrow> bool \<times> 'a state" where
  "operator_call rot self camera point residuals s =
     (let s1 = print [Str (CHR 0x0A # '' Camera: ''),
                      Num (rd s camera 0), Str '' '', Num (rd s camera 1), Str '' '',
                      Num (rd s camera 2), Str '' '', Num (rd s camera 3), Str '' '',
                      Num (rd s camera 4), Str '' '', Num (rd s camera 5), Str '' '',
                      Num (rd s camera 6), Str [CHR 0x0A]] s;
          (predicted_x, predicted_y) = predicted rot (rd s1 camera) (rd s1 point);
          s2 = print [Num predicted_x, Str [CHR 0x09], Num (observed_x self), Endl] s1;
          s3 = print [Num predicted_y, Str [CHR 0x09], Num (observed_y self), Endl, Endl] s2;
          s4 = wr residuals 0 (predicted_x - observed_x self) s3;
          s5 = wr residuals 1 (predicted_y - observed_y self) s4
      in (True, s5))"

text \<open>
  The projection as the specification words it: rotate the point by the angle-axis
  rotation, add the translation, divide by the depth (the third coordinate), scale both
  quotients by the focal length.
\<close>

definition project ::
  "('a::{plus,times,inverse} vec3 \<Rightarrow> 'a vec3 \<Rightarrow> 'a vec3) \<Rightarrow> (int \<Rightarrow> 'a) \<Rightarrow> (int \<Rightarrow> 'a)
     \<Rightarrow> 'a \<times> 'a" where
  "project rot camera point =
     (case rot (camera 0, camera 1, camera 2) (point 0, point 1, point 2) of
        (rx, ry, rz) \<Rightarrow>
          (case (rx + camera 3, ry + camera 4, rz + camera 5) of
             (x, y, z) \<Rightarrow> (camera 6 * (x / z), camera 6 * (y / z))))"

subsection \<open>The problem store\<close>

text \<open>
  \<^verbatim>\<open>int\<close> is the 32-bit signed integer; a product that leaves its range is undefined in
  C++, and so is \<^verbatim>\<open>v[i]\<close> on a \<^verbatim>\<open>std::vector\<close> outside \<open>0 \<le> i < v.size()\<close>. Both are the
  value \<open>None\<close> here. A \<^verbatim>\<open>double*\<close> into a vector is the offset, in scalars, from its
  first element; \<^verbatim>\<open>&v[0]\<close> is the offset 0 when \<^verbatim>\<open>v\<close> has a first element and undefined
  when \<^verbatim>\<open>v\<close> is empty.
\<close>

definition int_range :: "int \<Rightarrow> bool" where
  "int_range v \<longleftrightarrow> - 2147483648 \<le> v \<and> v \<le> 2147483647"

definition int_mul :: "int \<Rightarrow> int \<Rightarrow> int option" where
  "int_mul a b = (if int_range (a * b) then Some (a * b) else None)"

definition at_index :: "'b list \<Rightarrow> int \<Rightarrow> 'b option" where
  "at_index v i = (if 0 \<le> i \<and> i < int (length v) then Some (v ! nat i) else None)"

text \<open>
  The members of \<^verbatim>\<open>BAProblem\<close>; an identifier cannot end in an underscore here, so
  the member \<^verbatim>\<open>parameters_\<close> is the field \<open>parameters_m\<close>, and so on.
\<close>

record 'a BAProblem =
  num_cameras_m :: int
  num_points_m :: int
  num_observations_m :: int
  num_parameters_m :: int
  point_index_m :: "int list"
  camera_index_m :: "int list"
  observations_m :: "'a list"
  parameters_m :: "'a list"

definition num_observations :: "'a BAProblem \<Rightarrow> int" where
  "num_observations P = num_observations_m P"

definition address_of_first :: "'b list \<Rightarrow> int option" where
  "address_of_first v = (case at_index v 0 of None \<Rightarrow> None | Some x \<Rightarrow> Some 0)"

definition observations :: "'a BAProblem \<Rightarrow> int option" where
  "observations P = address_of_first (observations_m P)"

definition mutable_cameras :: "'a BAProblem \<Rightarrow> int option" where
  "mutable_cameras P = address_of_first (parameters_m P)"

definition mutable_points :: "'a BAProblem \<Rightarrow> int option" where
  "mutable_points P =
     (case address_of_first (parameters_m P) of
        None \<Rightarrow> None
      | Some base \<Rightarrow>
          (case int_mul 7 (num_cameras_m P) of None \<Rightarrow> None | Some off \<Rightarrow> Some (base + off)))"

definition mutable_camera_for_observation :: "'a BAProblem \<Rightarrow> int \<Rightarrow> int option" where
  "mutable_camera_for_observation P i =
     (case mutable_cameras P of
        None \<Rightarrow> None
      | Some base \<Rightarrow>
          (case at_index (camera_index_m P) i of
             None \<Rightarrow> None
           | Some c \<Rightarrow> (case int_mul c 7 of None \<Rightarrow> None | Some off \<Rightarrow> Some (base + off))))"

definition mutable_point_for_observation :: "'a BAProblem \<Rightarrow> int \<Rightarrow> int option" where
  "mutable_point_for_observation P i =
     (case mutable_points P of
        None \<Rightarrow> None
      | Some base \<Rightarrow>
          (case at_index (point_index_m P) i of
             None \<Rightarrow> None
           | Some c \<Rightarrow> (case int_mul c 3 of None \<Rightarrow> None | Some off \<Rightarrow> Some (base + off))))"

subsection \<open>Filling the store and creating the residual blocks\<close>

text \<open>
  \<^verbatim>\<open>NViewDataSet\<close> is declared in \<^verbatim>\<open>openMVG/multiview/test_data_sets.hpp\<close>, which is not
  among the sources; \<^verbatim>\<open>main\<close> reads five of its members, indexed by camera \<open>j\<close> and point
  \<open>i\<close>: \<^verbatim>\<open>_x[j].col(i)\<close>, \<^verbatim>\<open>_R[j]\<close>, \<^verbatim>\<open>_t[j]\<close>, \<^verbatim>\<open>_K[j](r,c)\<close> and \<^verbatim>\<open>_X.col(i)\<close>. The data
  set is a parameter of the model, and so are the type \<open>'r\<close> of a rotation matrix and
  \<^verbatim>\<open>ceres::RotationMatrixToAngleAxis\<close> (the argument \<open>r2aa\<close>).
\<close>

record ('a, 'r) NViewDataSet =
  d_x :: "int \<Rightarrow> int \<Rightarrow> 'a \<times> 'a"
  d_R :: "int \<Rightarrow> 'r"
  d_t :: "int \<Rightarrow> 'a vec3"
  d_K :: "int \<Rightarrow> nat \<times> nat \<Rightarrow> 'a"
  d_X :: "int \<Rightarrow> 'a vec3"

text \<open>\<^verbatim>\<open>for (int i = 0; i < n; ++i) body\<close>, the body a function of \<open>i\<close> on the state.\<close>

definition for_loop :: "int \<Rightarrow> (int \<Rightarrow> 's \<Rightarrow> 's) \<Rightarrow> 's \<Rightarrow> 's" where
  "for_loop n body s = fold body [0..n - 1] s"

text \<open>
  Lines 114 to 126. \<^verbatim>\<open>reserve\<close> leaves a vector empty. The sizes are computed in \<^verbatim>\<open>int\<close>;
  the model is for \<open>nviews\<close> and \<open>npoints\<close> whose products stay in range, as the 3 and 6
  of \<^verbatim>\<open>main\<close> do.
\<close>

definition configure :: "int \<Rightarrow> int \<Rightarrow> 'a BAProblem" where
  "configure nviews npoints =
     \<lparr>num_cameras_m = nviews, num_points_m = npoints,
      num_observations_m = nviews * npoints,
      num_parameters_m = 7 * nviews + 3 * npoints,
      point_index_m = [], camera_index_m = [], observations_m = [], parameters_m = []\<rparr>"

text \<open>
  Lines 133 to 137, the body of the inner loop that records one observation: the camera
  index \<open>j\<close>, the point index \<open>i\<close> and the image point less the principal point. The source
  has no function for it; the specification calls the step \<open>add_observation\<close>.
\<close>

definition add_observation ::
  "int \<Rightarrow> int \<Rightarrow> 'a::minus \<times> 'a \<Rightarrow> 'a \<Rightarrow> 'a \<Rightarrow> 'a BAProblem \<Rightarrow> 'a BAProblem" where
  "add_observation j i pt ppx ppy P =
     P\<lparr>camera_index_m := camera_index_m P @ [j],
       point_index_m := point_index_m P @ [i],
       observations_m := observations_m P @ [fst pt - ppx, snd pt - ppy]\<rparr>"

text \<open>Lines 130 to 139.\<close>

definition fill_observations ::
  "int \<Rightarrow> int \<Rightarrow> 'a::minus \<Rightarrow> 'a \<Rightarrow> ('a, 'r) NViewDataSet \<Rightarrow> 'a BAProblem \<Rightarrow> 'a BAProblem" where
  "fill_observations nviews npoints ppx ppy d P =
     for_loop npoints
       (\<lambda>i. for_loop nviews (\<lambda>j. add_observation j i (d_x d j i) ppx ppy)) P"

text \<open>Lines 143 to 155, the body of the loop over the cameras.\<close>

definition camera_vector :: "('r \<Rightarrow> 'a vec3) \<Rightarrow> ('a, 'r) NViewDataSet \<Rightarrow> int \<Rightarrow> 'a list" where
  "camera_vector r2aa d j =
     (case r2aa (d_R d j) of
        (a0, a1, a2) \<Rightarrow>
          (case d_t d j of
             (t0, t1, t2) \<Rightarrow> [a0, a1, a2, t0, t1, t2, d_K d j (0, 0)]))"

definition push_camera ::
  "('r \<Rightarrow> 'a vec3) \<Rightarrow> ('a, 'r) NViewDataSet \<Rightarrow> int \<Rightarrow> 'a BAProblem \<Rightarrow> 'a BAProblem" where
  "push_camera r2aa d j P = P\<lparr>parameters_m := parameters_m P @ camera_vector r2aa d j\<rparr>"

text \<open>
  Lines 159 to 163, the body of the loop over the points (\<^verbatim>\<open>ptr3D\<close> is computed and
  never used).
\<close>

definition point_vector :: "('a, 'r) NViewDataSet \<Rightarrow> int \<Rightarrow> 'a list" where
  "point_vector d i = (case d_X d i of (x0, x1, x2) \<Rightarrow> [x0, x1, x2])"

definition push_point :: "('a, 'r) NViewDataSet \<Rightarrow> int \<Rightarrow> 'a BAProblem \<Rightarrow> 'a BAProblem" where
  "push_point d i P = P\<lparr>parameters_m := parameters_m P @ point_vector d i\<rparr>"

text \<open>Lines 114 to 164: the store \<^verbatim>\<open>main\<close> hands to the solver.\<close>

definition build_problem ::
  "int \<Rightarrow> int \<Rightarrow> 'a::minus \<Rightarrow> 'a \<Rightarrow> ('r \<Rightarrow> 'a vec3) \<Rightarrow> ('a, 'r) NViewDataSet \<Rightarrow> 'a BAProblem" where
  "build_problem nviews npoints ppx ppy r2aa d =
     for_loop npoints (push_point d)
       (for_loop nviews (push_camera r2aa d)
          (fill_observations nviews npoints ppx ppy d (configure nviews npoints)))"

text \<open>
  \<^verbatim>\<open>main\<close> has \<open>nviews = 3\<close>, \<open>npoints = 6\<close> and \<open>ppx = ppy = 500\<close>; the literal asks the
  scalars for numerals.
\<close>

definition main_problem ::
  "('r \<Rightarrow> 'a::{minus,numeral} vec3) \<Rightarrow> ('a, 'r) NViewDataSet \<Rightarrow> 'a BAProblem" where
  "main_problem r2aa d = build_problem 3 6 500 500 r2aa d"

text \<open>
  Lines 169 to 183. A residual block is the cost functor with its observed location and
  the two parameter blocks (pointers into \<^verbatim>\<open>parameters_\<close>) it was added with; the
  \<^verbatim>\<open>ceres::Problem\<close> is the list of the blocks added so far.
\<close>

record 'a ResidualBlock =
  cost_function :: "'a PinholeReprojectionError"
  camera_block :: int
  point_block :: int

definition new_residual_block :: "'a BAProblem \<Rightarrow> int \<Rightarrow> 'a ResidualBlock option" where
  "new_residual_block P i =
     (case observations P of
        None \<Rightarrow> None
      | Some obs \<Rightarrow>
          (case at_index (observations_m P) (obs + (2 * i + 0)) of
             None \<Rightarrow> None
           | Some ox \<Rightarrow>
               (case at_index (observations_m P) (obs + (2 * i + 1)) of
                  None \<Rightarrow> None
                | Some oy \<Rightarrow>
                    (case mutable_camera_for_observation P i of
                       None \<Rightarrow> None
                     | Some c \<Rightarrow>
                         (case mutable_point_for_observation P i of
                            None \<Rightarrow> None
                          | Some p \<Rightarrow>
                              Some \<lparr>cost_function = \<lparr>observed_x = ox, observed_y = oy\<rparr>,
                                    camera_block = c, point_block = p\<rparr>)))))"

definition add_residual_blocks :: "'a BAProblem \<Rightarrow> 'a ResidualBlock list option" where
  "add_residual_blocks P =
     for_loop (num_observations P)
       (\<lambda>i problem.
          case problem of
            None \<Rightarrow> None
          | Some blocks \<Rightarrow>
              (case new_residual_block P i of
                 None \<Rightarrow> None
               | Some b \<Rightarrow> Some (blocks @ [b])))
       (Some [])"

subsection \<open>Notions used in the statements\<close>

text \<open>The \<open>n\<close> scalars of a vector that start at offset \<open>off\<close>: a parameter block.\<close>

definition block :: "'a list \<Rightarrow> int \<Rightarrow> nat \<Rightarrow> 'a list" where
  "block xs off n = take n (drop (nat off) xs)"

text \<open>
  Modelled from the spec: \<^verbatim>\<open>ceres::AngleAxisRotatePoint\<close> is not among the sources. The
  specification's data model fixes the rotation a camera stores: the rotation angle is the
  norm of the vector, the axis is the normalised vector, and the zero vector is the
  identity rotation. Over the reals that is Rodrigues' formula. It serves as the concrete
  rotation where a statement is evaluated at an input.
\<close>

definition angle_axis_rotate :: "real vec3 \<Rightarrow> real vec3 \<Rightarrow> real vec3" where
  "angle_axis_rotate w v =
     (case w of
        (w0, w1, w2) \<Rightarrow>
          (case v of
             (x, y, z) \<Rightarrow>
               (let theta = sqrt (w0 * w0 + w1 * w1 + w2 * w2) in
                if theta = 0 then (x, y, z)
                else
                  (let k0 = w0 / theta; k1 = w1 / theta; k2 = w2 / theta;
                       c = cos theta; s = sin theta;
                       kv = k0 * x + k1 * y + k2 * z
                   in (x * c + (k1 * z - k2 * y) * s + k0 * kv * (1 - c),
                       y * c + (k2 * x - k0 * z) * s + k1 * kv * (1 - c),
                       z * c + (k0 * y - k1 * x) * s + k2 * kv * (1 - c))))))"

text \<open>
  A sample memory: at addresses 0 to 6 a camera with the zero angle-axis vector, the zero
  translation and focal length 3; at addresses 7 to 9 the point \<open>(4, 1, 2)\<close>; at addresses
  20 to 22 the point \<open>(4, 1, - 2)\<close>, behind the camera; zero elsewhere, so that the three
  scalars from address 0 are a point at depth zero.
\<close>

definition sample_mem :: "int \<Rightarrow> real" where
  "sample_mem a =
     (if a = 6 then 3 else if a = 7 then 4 else if a = 8 then 1 else if a = 9 then 2
      else if a = 20 then 4 else if a = 21 then 1 else if a = 22 then - 2 else 0)"

definition sample_state :: "real state" where
  "sample_state = \<lparr>mem = sample_mem, cout = []\<rparr>"

text \<open>A sample data set, its scalars integers.\<close>

definition sample_data :: "(int, int vec3) NViewDataSet" where
  "sample_data =
     \<lparr>d_x = (\<lambda>j i. (500 + j, 500 + i)), d_R = (\<lambda>j. (j, 0, 0)), d_t = (\<lambda>j. (0, j, 1)),
      d_K = (\<lambda>j rc. 100 + j), d_X = (\<lambda>i. (i, i, 5))\<rparr>"

subsection \<open>The scalars of the program: double\<close>

text \<open>
  Where a statement is evaluated at an input, or refuted at one, the scalars are the
  \<^verbatim>\<open>double\<close> of the program: IEEE 754 binary64, as the platforms that build the sample have
  it. A value is a finite real, an infinity or NaN. The result of an operation on finite
  values is the exact result rounded to the nearest number with a 53-bit significand, ties
  to the even one; below \<open>2 ^ - 1022\<close> the spacing stays \<open>2 ^ - 1074\<close> (gradual underflow),
  and a rounded result of magnitude \<open>2 ^ 1024\<close> or more is an infinity. Two simplifications:
  there is one NaN, and negative zero is not told from zero, so a zero divisor is the
  positive zero. No input evaluated below produces a negative zero.
\<close>

datatype double = Finite real | PInf | NInf | NaN

definition round_even :: "real \<Rightarrow> int" where
  "round_even x =
     (let f = \<lfloor>x\<rfloor>; d = x - of_int f
      in if d < 1 / 2 then f else if 1 / 2 < d then f + 1 else if even f then f else f + 1)"

definition ulp_exponent :: "real \<Rightarrow> int" where
  "ulp_exponent r = max \<lfloor>log 2 \<bar>r\<bar>\<rfloor> (- 1022) - 52"

definition round53 :: "real \<Rightarrow> real" where
  "round53 r =
     (if r = 0 then 0
      else of_int (round_even (r / 2 powi ulp_exponent r)) * 2 powi ulp_exponent r)"

definition overflow_threshold :: real where
  "overflow_threshold = 2 ^ 1024"

definition to_double :: "real \<Rightarrow> double" where
  "to_double r =
     (let q = round53 r
      in if overflow_threshold \<le> q then PInf
         else if q \<le> - overflow_threshold then NInf
         else Finite q)"

text \<open>
  \<open>is_finite\<close> tells the finite values from the infinities and NaN. \<open>finite_double\<close> holds
  of the finite values that are doubles; the datatype also has a \<open>Finite r\<close> for a real
  \<open>r\<close> that binary64 does not have (one that rounding changes), and \<open>finite_double\<close>
  leaves those out.
\<close>

fun is_finite :: "double \<Rightarrow> bool" where
  "is_finite (Finite r) = True"
| "is_finite x = False"

fun finite_double :: "double \<Rightarrow> bool" where
  "finite_double (Finite r) = (round53 r = r \<and> \<bar>r\<bar> < overflow_threshold)"
| "finite_double x = False"

text \<open>The four operations, with the special cases of IEEE 754.\<close>

fun double_add :: "double \<Rightarrow> double \<Rightarrow> double" where
  "double_add (Finite a) (Finite b) = to_double (a + b)"
| "double_add NaN y = NaN"
| "double_add x NaN = NaN"
| "double_add PInf NInf = NaN"
| "double_add NInf PInf = NaN"
| "double_add PInf y = PInf"
| "double_add x PInf = PInf"
| "double_add NInf y = NInf"
| "double_add x NInf = NInf"

fun double_sub :: "double \<Rightarrow> double \<Rightarrow> double" where
  "double_sub (Finite a) (Finite b) = to_double (a - b)"
| "double_sub NaN y = NaN"
| "double_sub x NaN = NaN"
| "double_sub PInf PInf = NaN"
| "double_sub NInf NInf = NaN"
| "double_sub PInf y = PInf"
| "double_sub NInf y = NInf"
| "double_sub x PInf = NInf"
| "double_sub x NInf = PInf"

fun double_mul :: "double \<Rightarrow> double \<Rightarrow> double" where
  "double_mul (Finite a) (Finite b) = to_double (a * b)"
| "double_mul NaN y = NaN"
| "double_mul x NaN = NaN"
| "double_mul (Finite a) PInf = (if a = 0 then NaN else if 0 < a then PInf else NInf)"
| "double_mul (Finite a) NInf = (if a = 0 then NaN else if 0 < a then NInf else PInf)"
| "double_mul PInf (Finite b) = (if b = 0 then NaN else if 0 < b then PInf else NInf)"
| "double_mul NInf (Finite b) = (if b = 0 then NaN else if 0 < b then NInf else PInf)"
| "double_mul PInf PInf = PInf"
| "double_mul PInf NInf = NInf"
| "double_mul NInf PInf = NInf"
| "double_mul NInf NInf = PInf"

fun double_div :: "double \<Rightarrow> double \<Rightarrow> double" where
  "double_div (Finite a) (Finite b) =
     (if b = 0 then (if a = 0 then NaN else if 0 < a then PInf else NInf)
      else to_double (a / b))"
| "double_div NaN y = NaN"
| "double_div x NaN = NaN"
| "double_div (Finite a) y = Finite 0"
| "double_div PInf (Finite b) = (if 0 \<le> b then PInf else NInf)"
| "double_div NInf (Finite b) = (if 0 \<le> b then NInf else PInf)"
| "double_div x y = NaN"

instantiation double :: "{zero, plus, minus, times, inverse}"
begin

definition zero_double :: double where
  "zero_double = Finite 0"

definition plus_double :: "double \<Rightarrow> double \<Rightarrow> double" where
  "plus_double = double_add"

definition minus_double :: "double \<Rightarrow> double \<Rightarrow> double" where
  "minus_double = double_sub"

definition times_double :: "double \<Rightarrow> double \<Rightarrow> double" where
  "times_double = double_mul"

definition divide_double :: "double \<Rightarrow> double \<Rightarrow> double" where
  "divide_double = double_div"

definition inverse_double :: "double \<Rightarrow> double" where
  "inverse_double = double_div (Finite 1)"

instance ..

end

text \<open>
  Modelled from the spec: the rotation of the specification on doubles, for the same
  absent \<^verbatim>\<open>ceres::AngleAxisRotatePoint\<close>. On finite arguments it is \<open>angle_axis_rotate\<close>,
  each coordinate rounded; it is NaN when an argument is not finite. It is only ever
  applied to the zero angle-axis vector.
\<close>

definition double_rotate :: "double vec3 \<Rightarrow> double vec3 \<Rightarrow> double vec3" where
  "double_rotate w v =
     (case (w, v) of
        ((Finite w0, Finite w1, Finite w2), (Finite x, Finite y, Finite z)) \<Rightarrow>
          (case angle_axis_rotate (w0, w1, w2) (x, y, z) of
             (a, b, c) \<Rightarrow> (to_double a, to_double b, to_double c))
      | _ \<Rightarrow> (NaN, NaN, NaN))"

text \<open>
  A memory that holds the list \<open>xs\<close> from address 0 and \<open>other\<close> elsewhere, and the state
  with that memory and nothing written to the output yet.
\<close>

definition memory_of :: "'a \<Rightarrow> 'a list \<Rightarrow> int \<Rightarrow> 'a" where
  "memory_of other xs a = (if 0 \<le> a \<and> a < int (length xs) then xs ! nat a else other)"

definition state_of :: "'a \<Rightarrow> 'a list \<Rightarrow> 'a state" where
  "state_of other xs = \<lparr>mem = memory_of other xs, cout = []\<rparr>"

text \<open>The store \<^verbatim>\<open>main\<close> builds from the sample data set: 3 cameras, 6 points, 39 scalars.\<close>

definition sample_store :: "int BAProblem" where
  "sample_store = main_problem (\<lambda>r. r) sample_data"

section \<open>Properties of the functor\<close>

lemma transformed_eq:
  "transformed rot camera point =
     (case rot (camera 0, camera 1, camera 2) (point 0, point 1, point 2) of
        (rx, ry, rz) \<Rightarrow> [rx + camera 3, ry + camera 4, rz + camera 5])"
  by (simp add: transformed_def AngleAxisRotatePoint_def Let_def split: prod.splits)

lemma mem_print [simp]: "mem (print ts s) = mem s"
  by (simp add: print_def)

lemma rd_print [simp]: "rd (print ts s) = rd s"
  by (simp add: rd_def fun_eq_iff)

lemma cout_wr [simp]: "cout (wr ptr k v s) = cout s"
  by (simp add: wr_def)

lemma cout_print [simp]: "cout (print ts s) = cout s @ ts"
  by (simp add: print_def)

lemma mem_wr [simp]: "mem (wr ptr k v s) = (mem s)(ptr + k := v)"
  by (simp add: wr_def)

lemma operator_call_flag: "fst (operator_call rot self camera point residuals s) = True"
  by (simp add: operator_call_def Let_def split_beta)

lemma operator_call_mem:
  "mem (snd (operator_call rot self camera point residuals s)) =
     (mem s)(residuals := fst (predicted rot (rd s camera) (rd s point)) - observed_x self,
             residuals + 1 := snd (predicted rot (rd s camera) (rd s point)) - observed_y self)"
  by (simp add: operator_call_def Let_def split_beta)

lemma operator_call_cout:
  "cout (snd (operator_call rot self camera point residuals s)) =
     cout s @
       [Str (CHR 0x0A # '' Camera: ''),
        Num (rd s camera 0), Str '' '', Num (rd s camera 1), Str '' '',
        Num (rd s camera 2), Str '' '', Num (rd s camera 3), Str '' '',
        Num (rd s camera 4), Str '' '', Num (rd s camera 5), Str '' '',
        Num (rd s camera 6), Str [CHR 0x0A],
        Num (fst (predicted rot (rd s camera) (rd s point))), Str [CHR 0x09],
        Num (observed_x self), Endl,
        Num (snd (predicted rot (rd s camera) (rd s point))), Str [CHR 0x09],
        Num (observed_y self), Endl, Endl]"
  by (simp add: operator_call_def Let_def split_beta)

lemma predicted_project: "predicted rot camera point = project rot camera point"
  by (simp add: predicted_def project_def transformed_eq Let_def split: prod.splits)

text \<open>
  C1. The predicted image location the functor computes is the projection of the
  specification: the point rotated by the angle-axis rotation in \<open>camera[0..2]\<close>, plus the
  translation \<open>camera[3..5]\<close>, its first two coordinates divided by the third, both
  quotients multiplied by the focal length \<open>camera[6]\<close>. With \<open>(x, y, z)\<close> the transformed
  point, it is \<open>(focal * (x / z), focal * (y / z))\<close>.
\<close>

theorem C1_predicted_is_project:
  "predicted rot camera point = project rot camera point \<and>
   (case rot (camera 0, camera 1, camera 2) (point 0, point 1, point 2) of
      (rx, ry, rz) \<Rightarrow>
        transformed rot camera point = [rx + camera 3, ry + camera 4, rz + camera 5] \<and>
        predicted rot camera point =
          (camera 6 * ((rx + camera 3) / (rz + camera 5)),
           camera 6 * ((ry + camera 4) / (rz + camera 5))))"
  by (simp add: predicted_def project_def transformed_eq Let_def split: prod.splits)


text \<open>
  C2. The two residuals the functor writes are the predicted location minus the observed
  one: \<open>residuals[0] = predicted_x - observed_x\<close> and \<open>residuals[1] = predicted_y - observed_y\<close>,
  with the predicted location the projection of the camera and point blocks it was given.
\<close>

theorem C2_residual_is_project_minus_observed:
  "(let s' = snd (operator_call rot self camera point residuals s);
        pr = project rot (rd s camera) (rd s point)
    in rd s' residuals 0 = fst pr - observed_x self \<and>
       rd s' residuals 1 = snd pr - observed_y self)"
  by (simp add: operator_call_mem predicted_project rd_def Let_def)

lemma predicted_cong:
  assumes "\<forall>k. 0 \<le> k \<and> k < 7 \<longrightarrow> c1 k = c2 k" and "\<forall>k. 0 \<le> k \<and> k < 3 \<longrightarrow> p1 k = p2 k"
  shows "predicted rot c1 p1 = predicted rot c2 p2"
proof -
  have "c1 0 = c2 0" "c1 1 = c2 1" "c1 2 = c2 2" "c1 3 = c2 3" "c1 4 = c2 4" "c1 5 = c2 5"
    "c1 6 = c2 6" "p1 0 = p2 0" "p1 1 = p2 1" "p1 2 = p2 2"
    using assms by simp_all
  then show ?thesis
    by (simp add: predicted_project project_def)
qed

lemma angle_axis_rotate_zero: "angle_axis_rotate (0, 0, 0) v = v"
  by (simp add: angle_axis_rotate_def split: prod.splits)

lemma sample_predicted:
  "predicted angle_axis_rotate (rd sample_state 0) (rd sample_state 7) = (6, 3 / 2)"
  by (simp add: predicted_project project_def rd_def sample_state_def sample_mem_def
      angle_axis_rotate_zero)


text \<open>
  C4, as stated, fails: the functor writes to \<^verbatim>\<open>std::cout\<close> (lines 63 to 70, 89 and 90).
  Called on the sample memory with an empty output stream, it leaves 24 items on the
  stream.
\<close>

theorem C4_counterexample:
  "cout sample_state = [] \<and>
   cout (snd (operator_call angle_axis_rotate \<lparr>observed_x = 3, observed_y = 1\<rparr> 0 7 10
                sample_state)) =
     [Str (CHR 0x0A # '' Camera: ''), Num 0, Str '' '', Num 0, Str '' '', Num 0, Str '' '',
      Num 0, Str '' '', Num 0, Str '' '', Num 0, Str '' '', Num 3, Str [CHR 0x0A],
      Num 6, Str [CHR 0x09], Num 3, Endl, Num (3 / 2), Str [CHR 0x09], Num 1, Endl, Endl]"
  by (simp add: operator_call_cout sample_predicted)
    (simp add: sample_state_def rd_def sample_mem_def)

text \<open>
  C4, amended. Evaluating the residual changes memory at the two scalars of the residual
  output and nowhere else, so it leaves the camera block and the point block unchanged
  when the residual output does not overlap them. It is not free of side effects: it
  appends 24 items to the standard output (the camera block, the predicted and the
  observed location), after what was there.
\<close>

theorem C4_frame:
  "(let s' = snd (operator_call rot self camera point residuals s) in
      (\<forall>a. a \<noteq> residuals \<and> a \<noteq> residuals + 1 \<longrightarrow> mem s' a = mem s a) \<and>
      (residuals + 1 < camera \<or> camera + 6 < residuals \<longrightarrow>
         (\<forall>k. 0 \<le> k \<and> k < 7 \<longrightarrow> rd s' camera k = rd s camera k)) \<and>
      (residuals + 1 < point \<or> point + 2 < residuals \<longrightarrow>
         (\<forall>k. 0 \<le> k \<and> k < 3 \<longrightarrow> rd s' point k = rd s point k)) \<and>
      take (length (cout s)) (cout s') = cout s \<and>
      length (cout s') = length (cout s) + 24)"
  by (auto simp add: Let_def operator_call_mem operator_call_cout rd_def)


theorem C4_frame_witness:
  "((10::int) + 1 < 0 \<or> (0::int) + 6 < 10) \<and> ((10::int) + 1 < 7 \<or> (7::int) + 2 < 10) \<and>
   (let s' = snd (operator_call angle_axis_rotate \<lparr>observed_x = 3, observed_y = 1\<rparr> 0 7 10
                    sample_state)
    in rd s' 0 6 = 3 \<and> rd s' 7 0 = 4 \<and> mem s' 12 = 0 \<and> length (cout s') = 24)"
proof -
  let ?s' = "snd (operator_call angle_axis_rotate \<lparr>observed_x = 3, observed_y = 1\<rparr> 0 7 10
                    sample_state)"
  note F = C4_frame [of angle_axis_rotate "\<lparr>observed_x = 3, observed_y = 1\<rparr>" 0 7 10
      sample_state, unfolded Let_def]
  from F have m: "\<forall>a. a \<noteq> 10 \<and> a \<noteq> 10 + 1 \<longrightarrow> mem ?s' a = mem sample_state a"
    and c: "10 + 1 < (0::int) \<or> (0::int) + 6 < 10 \<longrightarrow>
      (\<forall>k. 0 \<le> k \<and> k < 7 \<longrightarrow> rd ?s' 0 k = rd sample_state 0 k)"
    and p: "10 + 1 < (7::int) \<or> (7::int) + 2 < 10 \<longrightarrow>
      (\<forall>k. 0 \<le> k \<and> k < 3 \<longrightarrow> rd ?s' 7 k = rd sample_state 7 k)"
    and l: "length (cout ?s') = length (cout sample_state) + 24"
    by blast+
  have v: "rd sample_state 0 6 = 3" "rd sample_state 7 0 = 4" "mem sample_state 12 = 0"
    "cout sample_state = []"
    by (simp_all add: rd_def sample_state_def sample_mem_def)
  have "\<forall>k. 0 \<le> k \<and> k < 7 \<longrightarrow> rd ?s' 0 k = rd sample_state 0 k"
    using c by simp
  then have "rd ?s' 0 6 = rd sample_state 0 6"
    by simp
  then have "rd ?s' 0 6 = 3"
    by (simp only: v)
  moreover have "\<forall>k. 0 \<le> k \<and> k < 3 \<longrightarrow> rd ?s' 7 k = rd sample_state 7 k"
    using p by simp
  then have "rd ?s' 7 0 = rd sample_state 7 0"
    by simp
  then have "rd ?s' 7 0 = 4"
    by (simp only: v)
  moreover have "mem ?s' 12 = 0"
    using m [rule_format, of 12] by (simp add: v)
  moreover have "length (cout ?s') = 24"
    using l by (simp add: v)
  ultimately show ?thesis
    by (simp add: Let_def)
qed

text \<open>
  C8. Two evaluations whose camera blocks hold the same 7 scalars, whose point blocks hold
  the same 3 scalars and whose observed locations are the same give the same flag, the
  same two residuals and the same text on the output, wherever the blocks and the
  residual outputs lie and whatever else the two memories hold. The transformed depth
  plays no part: the statement holds for every depth, the positive ones among them.
\<close>

theorem C8_deterministic:
  assumes "\<forall>k. 0 \<le> k \<and> k < 7 \<longrightarrow> rd s1 camera1 k = rd s2 camera2 k"
    and "\<forall>k. 0 \<le> k \<and> k < 3 \<longrightarrow> rd s1 point1 k = rd s2 point2 k"
    and "observed_x self1 = observed_x self2" and "observed_y self1 = observed_y self2"
  shows "(let r1 = operator_call rot self1 camera1 point1 residuals1 s1;
              r2 = operator_call rot self2 camera2 point2 residuals2 s2
          in fst r1 = fst r2 \<and>
             rd (snd r1) residuals1 0 = rd (snd r2) residuals2 0 \<and>
             rd (snd r1) residuals1 1 = rd (snd r2) residuals2 1 \<and>
             drop (length (cout s1)) (cout (snd r1)) = drop (length (cout s2)) (cout (snd r2)))"
proof -
  have p: "predicted rot (rd s1 camera1) (rd s1 point1) = predicted rot (rd s2 camera2) (rd s2 point2)"
    using assms(1,2) by (rule predicted_cong)
  have c: "rd s1 camera1 0 = rd s2 camera2 0" "rd s1 camera1 1 = rd s2 camera2 1"
    "rd s1 camera1 2 = rd s2 camera2 2" "rd s1 camera1 3 = rd s2 camera2 3"
    "rd s1 camera1 4 = rd s2 camera2 4" "rd s1 camera1 5 = rd s2 camera2 5"
    "rd s1 camera1 6 = rd s2 camera2 6"
    using assms(1) by simp_all
  show ?thesis
    by (simp add: Let_def operator_call_flag operator_call_mem operator_call_cout p c assms(3,4)
        rd_def [of _ residuals1] rd_def [of _ residuals2])
qed

theorem C8_deterministic_witness:
  "map (rd sample_state 0) [0, 1, 2, 3, 4, 5, 6] =
     map (rd \<lparr>mem = (\<lambda>a. sample_mem (a - 100)), cout = [Endl]\<rparr> 100) [0, 1, 2, 3, 4, 5, 6] \<and>
   map (rd sample_state 7) [0, 1, 2] =
     map (rd \<lparr>mem = (\<lambda>a. sample_mem (a - 100)), cout = [Endl]\<rparr> 107) [0, 1, 2] \<and>
   (let r1 = operator_call angle_axis_rotate \<lparr>observed_x = 3, observed_y = 1\<rparr> 0 7 10
               sample_state;
        r2 = operator_call angle_axis_rotate \<lparr>observed_x = 3, observed_y = 1\<rparr> 100 107 50
               \<lparr>mem = (\<lambda>a. sample_mem (a - 100)), cout = [Endl]\<rparr>
    in fst r1 = fst r2 \<and>
       rd (snd r1) 10 0 = rd (snd r2) 50 0 \<and>
       rd (snd r1) 10 1 = rd (snd r2) 50 1 \<and>
       drop (length (cout sample_state)) (cout (snd r1)) = drop (length [Endl]) (cout (snd r2)))"
proof -
  let ?s2 = "\<lparr>mem = (\<lambda>a. sample_mem (a - 100)), cout = [Endl]\<rparr>"
  have c: "\<forall>k. 0 \<le> k \<and> k < 7 \<longrightarrow> rd sample_state 0 k = rd ?s2 100 k"
    and p: "\<forall>k. 0 \<le> k \<and> k < 3 \<longrightarrow> rd sample_state 7 k = rd ?s2 107 k"
    by (simp_all add: rd_def sample_state_def)
  have o: "observed_x \<lparr>observed_x = 3::real, observed_y = 1\<rparr> =
             observed_x \<lparr>observed_x = 3::real, observed_y = 1\<rparr>"
    "observed_y \<lparr>observed_x = 3::real, observed_y = 1\<rparr> =
       observed_y \<lparr>observed_x = 3::real, observed_y = 1\<rparr>"
    by (rule refl)+
  have m: "map (rd sample_state 0) [0, 1, 2, 3, 4, 5, 6] = map (rd ?s2 100) [0, 1, 2, 3, 4, 5, 6]"
    "map (rd sample_state 7) [0, 1, 2] = map (rd ?s2 107) [0, 1, 2]"
    by (simp_all add: rd_def sample_state_def)
  from C8_deterministic [OF c p o, of angle_axis_rotate 10 50] show ?thesis
    using m by simp
qed

section \<open>Properties of the double arithmetic\<close>




lemma round_even_of_int [simp]: "round_even (of_int n) = n"
  by (simp add: round_even_def)

lemma floor_log2_le:
  assumes "r \<noteq> 0" and "\<bar>r\<bar> < 2 powi n"
  shows "\<lfloor>log 2 \<bar>r\<bar>\<rfloor> < n"
proof -
  have "\<bar>r\<bar> < 2 powr real_of_int n"
    using assms(2) by (simp add: powr_real_of_int')
  then have "log 2 \<bar>r\<bar> < real_of_int n"
    using assms(1) by (simp add: log_less_iff)
  then show ?thesis
    by (simp add: floor_less_iff)
qed

lemma ulp_exponent_ge: "- 1074 \<le> ulp_exponent r"
  by (simp add: ulp_exponent_def)

lemma round53_exact:
  assumes "\<bar>n\<bar> < 2 ^ 53" and "- 1074 \<le> k"
  shows "round53 (of_int n * 2 powi k) = of_int n * 2 powi k"
proof (cases "n = 0")
  case True
  then show ?thesis by (simp add: round53_def)
next
  case False
  let ?r = "real_of_int n * 2 powi k"
  let ?u = "ulp_exponent ?r"
  have r0: "?r \<noteq> 0"
    using False by simp
  have "\<bar>?r\<bar> = \<bar>real_of_int n\<bar> * 2 powi k"
    by (simp add: abs_mult)
  also have "\<dots> < 2 ^ 53 * 2 powi k"
  proof (intro mult_strict_right_mono)
    have "real_of_int \<bar>n\<bar> < real_of_int (2 ^ 53)"
      using assms(1) by (simp only: of_int_less_iff)
    then show "\<bar>real_of_int n\<bar> < 2 ^ 53"
      by simp
    show "(0::real) < 2 powi k"
      by simp
  qed
  also have "\<dots> = 2 powi (53 + k)"
    by (simp add: power_int_add)
  finally have "\<lfloor>log 2 \<bar>?r\<bar>\<rfloor> < 53 + k"
    using r0 by (intro floor_log2_le)
  then have le: "?u \<le> k"
    using assms(2) by (simp add: ulp_exponent_def)
  have "?r / 2 powi ?u = real_of_int n * 2 powi (k - ?u)"
    by (simp add: power_int_diff)
  also have "\<dots> = real_of_int (n * 2 ^ nat (k - ?u))"
    using le by (simp add: power_int_nonneg_exp)
  finally have "round_even (?r / 2 powi ?u) = n * 2 ^ nat (k - ?u)"
    by (simp only: round_even_of_int)
  then have "round53 ?r = real_of_int (n * 2 ^ nat (k - ?u)) * 2 powi ?u"
    using r0 by (simp add: round53_def)
  also have "\<dots> = real_of_int n * (2 powi (k - ?u) * 2 powi ?u)"
    using le by (simp add: power_int_nonneg_exp)
  also have "\<dots> = ?r"
    by (simp add: power_int_add [symmetric])
  finally show ?thesis .
qed


lemma round53_multiple:
  assumes "lo \<le> ulp_exponent r"
  shows "\<exists>n::int. round53 r = of_int n * 2 powi lo"
proof (cases "r = 0")
  case True
  then have "round53 r = of_int 0 * 2 powi lo"
    by (simp add: round53_def)
  then show ?thesis ..
next
  case False
  let ?u = "ulp_exponent r"
  let ?m = "round_even (r / 2 powi ?u)"
  have "(2::real) powi ?u = 2 powi (?u - lo) * 2 powi lo"
    by (simp add: power_int_add [symmetric])
  also have "\<dots> = real_of_int (2 ^ nat (?u - lo)) * 2 powi lo"
    using assms by (simp add: power_int_nonneg_exp)
  finally have "round53 r = of_int (?m * 2 ^ nat (?u - lo)) * 2 powi lo"
    using False by (simp add: round53_def)
  then show ?thesis ..
qed

lemma round_even_cases: "round_even x = \<lfloor>x\<rfloor> \<or> round_even x = \<lfloor>x\<rfloor> + 1"
  by (simp add: round_even_def Let_def)

lemma round_even_floor: "x = of_int \<lfloor>x\<rfloor> \<Longrightarrow> round_even x = \<lfloor>x\<rfloor>"
  by (metis round_even_of_int)

lemma round_even_nonzero:
  assumes "1 \<le> \<bar>x\<bar>"
  shows "round_even x \<noteq> 0"
proof (cases "0 \<le> x")
  case True
  then have "1 \<le> \<lfloor>x\<rfloor>"
    using assms by (simp add: le_floor_iff)
  then show ?thesis
    using round_even_cases [of x] by linarith
next
  case False
  then have x: "x \<le> - 1"
    using assms by simp
  then have f: "\<lfloor>x\<rfloor> \<le> - 1"
    by (simp add: floor_le_iff)
  show ?thesis
  proof (cases "\<lfloor>x\<rfloor> = - 1")
    case True
    then have "x = of_int \<lfloor>x\<rfloor>"
      using x by (smt (verit) of_int_floor_le of_int_minus of_int_1)
    then have "round_even x = \<lfloor>x\<rfloor>"
      by (rule round_even_floor)
    then show ?thesis
      using True by simp
  next
    case False
    then have "\<lfloor>x\<rfloor> \<le> - 2"
      using f by linarith
    then show ?thesis
      using round_even_cases [of x] by linarith
  qed
qed

lemma ulp_le_abs:
  assumes "lo = - 1074" and "2 powi lo \<le> \<bar>d\<bar>"
  shows "2 powi ulp_exponent d \<le> \<bar>d\<bar>"
proof -
  have pos: "0 < \<bar>d\<bar>"
    using assms(2) by (smt (verit) zero_less_power_int)
  let ?e = "\<lfloor>log 2 \<bar>d\<bar>\<rfloor>"
  have "(2::real) powr real_of_int ?e \<le> \<bar>d\<bar>"
    using pos floor_log_eq_powr_iff [of "\<bar>d\<bar>" 2 ?e] by simp
  then have e: "2 powi ?e \<le> \<bar>d\<bar>"
    by (simp add: powr_real_of_int')
  show ?thesis
  proof (cases "- 1022 \<le> ?e")
    case True
    then have "ulp_exponent d = ?e - 52"
      by (simp add: ulp_exponent_def)
    moreover have "(2::real) powi (?e - 52) \<le> 2 powi ?e"
      by (intro power_int_increasing) simp_all
    ultimately show ?thesis
      using e by simp
  next
    case False
    then have "ulp_exponent d = lo"
      by (simp add: ulp_exponent_def assms(1))
    then show ?thesis
      using assms(2) by (simp only:)
  qed
qed

lemma round53_nonzero:
  assumes "lo = - 1074" and "2 powi lo \<le> \<bar>d\<bar>"
  shows "round53 d \<noteq> 0"
proof -
  have d0: "d \<noteq> 0"
    using assms(2) by (smt (verit) zero_less_power_int abs_zero)
  have "1 \<le> \<bar>d\<bar> / 2 powi ulp_exponent d"
    using ulp_le_abs [OF assms] by (simp add: le_divide_eq)
  then have "1 \<le> \<bar>d / 2 powi ulp_exponent d\<bar>"
    by (simp add: abs_divide)
  then have "round_even (d / 2 powi ulp_exponent d) \<noteq> 0"
    by (rule round_even_nonzero)
  then show ?thesis
    using d0 by (simp add: round53_def)
qed

lemma round53_diff_zero:
  assumes "round53 a = a" and "round53 b = b"
  shows "round53 (a - b) = 0 \<longleftrightarrow> a = b"
proof
  assume "a = b"
  then show "round53 (a - b) = 0"
    by (simp add: round53_def)
next
  assume z: "round53 (a - b) = 0"
  define lo :: int where "lo = - 1074"
  have lo: "lo \<le> ulp_exponent r" for r
    unfolding lo_def by (rule ulp_exponent_ge)
  show "a = b"
  proof (rule ccontr)
    assume ne: "a \<noteq> b"
    obtain m where a: "a = real_of_int m * 2 powi lo"
      using assms(1) round53_multiple [OF lo, of a] by auto
    obtain n where b: "b = real_of_int n * 2 powi lo"
      using assms(2) round53_multiple [OF lo, of b] by auto
    have mn: "m \<noteq> n"
      using ne a b by auto
    have "a - b = real_of_int (m - n) * 2 powi lo"
      by (simp add: a b algebra_simps)
    then have eq: "\<bar>a - b\<bar> = real_of_int \<bar>m - n\<bar> * 2 powi lo"
      by (simp add: abs_mult)
    have "1 \<le> \<bar>m - n\<bar>"
      using mn by linarith
    then have "1 \<le> real_of_int \<bar>m - n\<bar>"
      by (simp only: of_int_1_le_iff)
    then have "1 * 2 powi lo \<le> real_of_int \<bar>m - n\<bar> * 2 powi lo"
      by (intro mult_right_mono) simp_all
    then have "2 powi lo \<le> \<bar>a - b\<bar>"
      by (simp only: eq mult_1)
    then have "round53 (a - b) \<noteq> 0"
      by (rule round53_nonzero [OF lo_def])
    then show False
      using z by simp
  qed
qed


lemma to_double_exact:
  assumes "\<bar>n\<bar> < 2 ^ 53" and "- 1074 \<le> k"
    and "\<bar>real_of_int n * 2 powi k\<bar> < overflow_threshold"
  shows "to_double (of_int n * 2 powi k) = Finite (of_int n * 2 powi k)"
proof -
  have "\<not> overflow_threshold \<le> real_of_int n * 2 powi k"
    "\<not> real_of_int n * 2 powi k \<le> - overflow_threshold"
    using assms(3) by linarith+
  then show ?thesis
    by (simp add: to_double_def round53_exact [OF assms(1,2)] Let_def)
qed

lemma to_double_values:
  "to_double 0 = Finite 0" "to_double 1 = Finite 1" "to_double 2 = Finite 2"
  "to_double 3 = Finite 3" "to_double 4 = Finite 4" "to_double 6 = Finite 6"
  "to_double 49 = Finite 49" "to_double 147 = Finite 147"
  "to_double (1 / 2) = Finite (1 / 2)" "to_double (3 / 2) = Finite (3 / 2)"
  "to_double (- 2) = Finite (- 2)"
  using to_double_exact [of 0 0] to_double_exact [of 1 0] to_double_exact [of 2 0]
    to_double_exact [of 3 0] to_double_exact [of 4 0] to_double_exact [of 6 0]
    to_double_exact [of 49 0] to_double_exact [of 147 0]
    to_double_exact [of 1 "- 1"] to_double_exact [of 3 "- 1"] to_double_exact [of "- 2" 0]
  by (simp_all add: overflow_threshold_def)

lemma to_double_big:
  "to_double (2 ^ 1000) = Finite (2 ^ 1000)" "to_double (2 ^ 1000 * 2 ^ 1000) = PInf"
proof -
  show "to_double (2 ^ 1000) = Finite (2 ^ 1000)"
    using to_double_exact [of 1 1000] by (simp add: overflow_threshold_def)
  have "round53 (2 ^ 2000) = 2 ^ 2000"
    using round53_exact [of 1 2000] by simp
  then show "to_double (2 ^ 1000 * 2 ^ 1000) = PInf"
    by (simp add: to_double_def Let_def overflow_threshold_def)
qed



lemma rd_state_of:
  "rd (state_of other xs) p k =
     (if 0 \<le> p + k \<and> p + k < int (length xs) then xs ! nat (p + k) else other)"
  by (simp add: rd_def state_of_def memory_of_def)

lemmas double_ops = plus_double_def minus_double_def times_double_def divide_double_def
  zero_double_def

lemma double_rotate_zero:
  "double_rotate (Finite 0, Finite 0, Finite 0) (Finite x, Finite y, Finite z) =
     (to_double x, to_double y, to_double z)"
  by (simp add: double_rotate_def angle_axis_rotate_zero)

lemma finite_double_sub:
  assumes "finite_double a" and "finite_double b"
  shows "a - b = 0 \<longleftrightarrow> a = b"
proof -
  obtain x y where a: "a = Finite x" and b: "b = Finite y"
    using assms by (cases a; cases b) simp_all
  have x: "round53 x = x" and y: "round53 y = y"
    using assms by (simp_all add: a b)
  have "0 < overflow_threshold"
    by (simp add: overflow_threshold_def)
  then have "to_double (x - y) = Finite 0 \<longleftrightarrow> round53 (x - y) = 0"
    by (auto simp add: to_double_def Let_def)
  then show ?thesis
    by (simp add: a b double_ops round53_diff_zero [OF x y])
qed

lemma finite_double_exact:
  assumes "\<bar>n\<bar> < 2 ^ 53" and "- 1074 \<le> k"
    and "\<bar>real_of_int n * 2 powi k\<bar> < overflow_threshold"
  shows "finite_double (Finite (of_int n * 2 powi k))"
  using assms(3) by (simp add: round53_exact [OF assms(1,2)])

lemma finite_double_values: "finite_double (Finite 6)" "finite_double (Finite (3 / 2))"
  "finite_double (Finite 3)" "finite_double (Finite 1)"
  using finite_double_exact [of 6 0] finite_double_exact [of 3 "- 1"]
    finite_double_exact [of 3 0] finite_double_exact [of 1 0]
  by (simp_all add: overflow_threshold_def)

lemma project_sample:
  "project double_rotate
     (rd (state_of NaN [Finite 0, Finite 0, Finite 0, Finite 0, Finite 0, Finite 0, Finite 3,
                        Finite 4, Finite 1, Finite 2]) 0)
     (rd (state_of NaN [Finite 0, Finite 0, Finite 0, Finite 0, Finite 0, Finite 0, Finite 3,
                        Finite 4, Finite 1, Finite 2]) 7) = (Finite 6, Finite (3 / 2))"
  by (simp add: project_def rd_state_of double_rotate_zero to_double_values double_ops)

lemma project_depth_zero:
  "project double_rotate
     (rd (state_of NaN [Finite 0, Finite 0, Finite 0, Finite 0, Finite 0, Finite 0, Finite 3,
                        Finite 4, Finite 1, Finite 0]) 0)
     (rd (state_of NaN [Finite 0, Finite 0, Finite 0, Finite 0, Finite 0, Finite 0, Finite 3,
                        Finite 4, Finite 1, Finite 0]) 7) = (PInf, PInf)"
  by (simp add: project_def rd_state_of double_rotate_zero to_double_values double_ops)

lemma is_finite_ops:
  "is_finite a \<Longrightarrow> \<not> is_finite (a / 0)"
  "is_finite a \<Longrightarrow> \<not> is_finite b \<Longrightarrow> \<not> is_finite (a * b)"
  "\<not> is_finite a \<Longrightarrow> is_finite b \<Longrightarrow> \<not> is_finite (a - b)"
  by (cases a; cases b; simp add: double_ops)+

section \<open>The functor on doubles\<close>

text \<open>
  C6, as stated, fails. With the point \<open>(4, 1, 0)\<close>, at depth zero, the projection is
  \<open>(+inf, +inf)\<close>; for an observation that is the same \<open>(+inf, +inf)\<close> the functor writes
  \<open>inf - inf\<close>, which is NaN, not \<open>(0, 0)\<close>.
\<close>

theorem C6_counterexample:
  "(observed_x \<lparr>observed_x = PInf, observed_y = PInf\<rparr>,
    observed_y \<lparr>observed_x = PInf, observed_y = PInf\<rparr>) =
     project double_rotate
       (rd (state_of NaN [Finite 0, Finite 0, Finite 0, Finite 0, Finite 0, Finite 0, Finite 3,
                          Finite 4, Finite 1, Finite 0]) 0)
       (rd (state_of NaN [Finite 0, Finite 0, Finite 0, Finite 0, Finite 0, Finite 0, Finite 3,
                          Finite 4, Finite 1, Finite 0]) 7) \<and>
   mem (snd (operator_call double_rotate \<lparr>observed_x = PInf, observed_y = PInf\<rparr> 0 7 10
               (state_of NaN [Finite 0, Finite 0, Finite 0, Finite 0, Finite 0, Finite 0, Finite 3,
                              Finite 4, Finite 1, Finite 0]))) 10 = NaN \<and>
   mem (snd (operator_call double_rotate \<lparr>observed_x = PInf, observed_y = PInf\<rparr> 0 7 10
               (state_of NaN [Finite 0, Finite 0, Finite 0, Finite 0, Finite 0, Finite 0, Finite 3,
                              Finite 4, Finite 1, Finite 0]))) 11 = NaN \<and>
   (NaN, NaN) \<noteq> (0 :: double, 0 :: double)"
  by (simp add: operator_call_mem predicted_project project_depth_zero double_ops)

lemma residual_zero_iff:
  fixes rot :: "'a::{zero,plus,minus,times,inverse} vec3 \<Rightarrow> 'a vec3 \<Rightarrow> 'a vec3"
  assumes "\<forall>a b. F a \<and> F b \<longrightarrow> (a - b = 0 \<longleftrightarrow> a = b)"
    and "F (fst (project rot (rd s camera) (rd s point)))"
    and "F (snd (project rot (rd s camera) (rd s point)))"
    and "F (observed_x self)" and "F (observed_y self)"
  shows "(let s' = snd (operator_call rot self camera point residuals s) in
            (rd s' residuals 0, rd s' residuals 1) = (0, 0)) \<longleftrightarrow>
         (observed_x self, observed_y self) = project rot (rd s camera) (rd s point)"
proof -
  let ?p = "project rot (rd s camera) (rd s point)"
  let ?s' = "snd (operator_call rot self camera point residuals s)"
  have x: "fst ?p - observed_x self = 0 \<longleftrightarrow> fst ?p = observed_x self"
    using assms(1,2,4) by blast
  have y: "snd ?p - observed_y self = 0 \<longleftrightarrow> snd ?p = observed_y self"
    using assms(1,3,5) by blast
  have r: "rd ?s' residuals 0 = fst ?p - observed_x self"
    "rd ?s' residuals 1 = snd ?p - observed_y self"
    by (simp_all add: operator_call_mem rd_def predicted_project)
  have "(rd ?s' residuals 0, rd ?s' residuals 1) = (0, 0) \<longleftrightarrow>
      fst ?p = observed_x self \<and> snd ?p = observed_y self"
    by (simp only: r x y prod.inject)
  also have "\<dots> \<longleftrightarrow> (observed_x self, observed_y self) = ?p"
    by (cases ?p) auto
  finally show ?thesis
    by (simp only: Let_def)
qed

text \<open>
  C6, amended. On doubles, for any rotation routine: when the two coordinates of the
  projection and the two of the observation are finite doubles, the two residuals the
  functor writes are both zero exactly when the observed location is the projection.
\<close>

theorem C6_zero_iff:
  fixes rot :: "double vec3 \<Rightarrow> double vec3 \<Rightarrow> double vec3"
  assumes "finite_double (fst (project rot (rd s camera) (rd s point)))"
    and "finite_double (snd (project rot (rd s camera) (rd s point)))"
    and "finite_double (observed_x self)" and "finite_double (observed_y self)"
  shows "(let s' = snd (operator_call rot self camera point residuals s) in
            (rd s' residuals 0, rd s' residuals 1) = (0, 0)) \<longleftrightarrow>
         (observed_x self, observed_y self) = project rot (rd s camera) (rd s point)"
proof -
  have "\<forall>a b. finite_double a \<and> finite_double b \<longrightarrow> (a - b = 0 \<longleftrightarrow> a = b)"
    using finite_double_sub by blast
  then show ?thesis
    using assms by (rule residual_zero_iff)
qed

theorem C6_zero_iff_witness:
  "finite_double (Finite 6) \<and> finite_double (Finite (3 / 2)) \<and>
   project double_rotate
     (rd (state_of NaN [Finite 0, Finite 0, Finite 0, Finite 0, Finite 0, Finite 0, Finite 3,
                        Finite 4, Finite 1, Finite 2]) 0)
     (rd (state_of NaN [Finite 0, Finite 0, Finite 0, Finite 0, Finite 0, Finite 0, Finite 3,
                        Finite 4, Finite 1, Finite 2]) 7) = (Finite 6, Finite (3 / 2)) \<and>
   (let s' = snd (operator_call double_rotate \<lparr>observed_x = Finite 6, observed_y = Finite (3 / 2)\<rparr>
                    0 7 10
                    (state_of NaN [Finite 0, Finite 0, Finite 0, Finite 0, Finite 0, Finite 0,
                                   Finite 3, Finite 4, Finite 1, Finite 2]))
    in (rd s' 10 0, rd s' 10 1) = (0, 0))"
proof -
  let ?s = "state_of NaN [Finite 0, Finite 0, Finite 0, Finite 0, Finite 0, Finite 0, Finite 3,
                          Finite 4, Finite 1, Finite 2]"
  let ?o = "\<lparr>observed_x = Finite 6, observed_y = Finite (3 / 2)\<rparr>"
  have f: "finite_double (fst (project double_rotate (rd ?s 0) (rd ?s 7)))"
    "finite_double (snd (project double_rotate (rd ?s 0) (rd ?s 7)))"
    "finite_double (observed_x ?o)" "finite_double (observed_y ?o)"
    by (simp_all only: project_sample fst_conv snd_conv finite_double_values
        PinholeReprojectionError.simps)
  have e: "(observed_x ?o, observed_y ?o) = project double_rotate (rd ?s 0) (rd ?s 7)"
    by (simp add: project_sample)
  from C6_zero_iff [of double_rotate ?s 0 7 ?o 10, OF f] e
  have "(let s' = snd (operator_call double_rotate ?o 0 7 10 ?s)
         in (rd s' 10 0, rd s' 10 1) = (0, 0))"
    by (simp only:)
  then show ?thesis
    using finite_double_values(1,2) project_sample by (simp only:)
qed





text \<open>
  C10, as stated, fails in its second clause: the division by the depth is not the only
  operation that can produce a value that is not finite. With focal length \<open>2 ^ 1000\<close> and
  the point \<open>(2 ^ 1000, 0, 1)\<close> every input is finite, the depth is 1 and the quotient
  \<open>2 ^ 1000\<close> is finite, and the product with the focal length overflows: the first
  residual is \<open>+inf\<close>.
\<close>

theorem C10_counterexample:
  "list_all is_finite
     (map (rd (state_of NaN [Finite 0, Finite 0, Finite 0, Finite 0, Finite 0, Finite 0,
                             Finite (2 ^ 1000), Finite (2 ^ 1000), Finite 0, Finite 1]) 0)
        [0, 1, 2, 3, 4, 5, 6, 7, 8, 9]) \<and>
   transformed double_rotate
     (rd (state_of NaN [Finite 0, Finite 0, Finite 0, Finite 0, Finite 0, Finite 0,
                        Finite (2 ^ 1000), Finite (2 ^ 1000), Finite 0, Finite 1]) 0)
     (rd (state_of NaN [Finite 0, Finite 0, Finite 0, Finite 0, Finite 0, Finite 0,
                        Finite (2 ^ 1000), Finite (2 ^ 1000), Finite 0, Finite 1]) 7) =
     [Finite (2 ^ 1000), Finite 0, Finite 1] \<and>
   Finite (2 ^ 1000) / Finite 1 = Finite (2 ^ 1000) \<and>
   is_finite (Finite (2 ^ 1000) / Finite 1) \<and>
   mem (snd (operator_call double_rotate \<lparr>observed_x = Finite 0, observed_y = Finite 0\<rparr> 0 7 10
               (state_of NaN [Finite 0, Finite 0, Finite 0, Finite 0, Finite 0, Finite 0,
                              Finite (2 ^ 1000), Finite (2 ^ 1000), Finite 0, Finite 1]))) 10 =
     PInf \<and>
   \<not> is_finite PInf"
  using to_double_big
  by (simp add: operator_call_mem predicted_project project_def transformed_eq rd_state_of
      double_rotate_zero to_double_values double_ops)

lemma depth_zero_residuals:
  fixes rot :: "'a::{zero,plus,minus,times,inverse} vec3 \<Rightarrow> 'a vec3 \<Rightarrow> 'a vec3"
    and F :: "'a \<Rightarrow> bool"
  assumes h1: "\<And>a. F a \<Longrightarrow> \<not> F (a / 0)"
    and h2: "\<And>a b. F a \<Longrightarrow> \<not> F b \<Longrightarrow> \<not> F (a * b)"
    and h3: "\<And>a b. \<not> F a \<Longrightarrow> F b \<Longrightarrow> \<not> F (a - b)"
    and f: "F (rd s camera 6)" and o: "F (observed_x self)" "F (observed_y self)"
    and p: "F (transformed rot (rd s camera) (rd s point) ! 0)"
      "F (transformed rot (rd s camera) (rd s point) ! 1)"
      "transformed rot (rd s camera) (rd s point) ! 2 = 0"
  shows "\<not> F (rd (snd (operator_call rot self camera point residuals s)) residuals 0) \<and>
         \<not> F (rd (snd (operator_call rot self camera point residuals s)) residuals 1)"
proof -
  let ?c = "rd s camera" and ?q = "rd s point"
  let ?p = "transformed rot ?c ?q"
  have pr: "predicted rot ?c ?q = (?c 6 * (?p ! 0 / ?p ! 2), ?c 6 * (?p ! 1 / ?p ! 2))"
    by (simp add: predicted_def Let_def)
  have "\<not> F (?c 6 * (?p ! 0 / ?p ! 2) - observed_x self)"
    unfolding p(3) by (rule h3 [OF h2 [OF f h1 [OF p(1)]] o(1)])
  moreover have "\<not> F (?c 6 * (?p ! 1 / ?p ! 2) - observed_y self)"
    unfolding p(3) by (rule h3 [OF h2 [OF f h1 [OF p(2)]] o(2)])
  ultimately show ?thesis
    by (simp add: operator_call_mem pr rd_def [of _ residuals])
qed

text \<open>
  C10, amended. For every input and any scalars, whatever the transformed depth is
  (positive, zero or negative), the functor returns \<open>true\<close>. The division by the depth is
  unguarded: on doubles, for any rotation routine, when the depth is zero and the focal
  length, the observation and the first two coordinates of the transformed point are
  finite, neither residual is finite. Nothing is claimed of the division being the only
  source of such values: the counterexample shows it is not.
\<close>

theorem C10_returns_true:
  fixes rot :: "'a::{plus,minus,times,inverse} vec3 \<Rightarrow> 'a vec3 \<Rightarrow> 'a vec3"
    and drot :: "double vec3 \<Rightarrow> double vec3 \<Rightarrow> double vec3"
  shows "fst (operator_call rot self camera point residuals s) = True \<and>
    (is_finite (rd ds dcamera 6) \<and> is_finite (observed_x dself) \<and>
     is_finite (observed_y dself) \<and>
     (let p = transformed drot (rd ds dcamera) (rd ds dpoint)
      in is_finite (p ! 0) \<and> is_finite (p ! 1) \<and> p ! 2 = 0) \<longrightarrow>
     (let s' = snd (operator_call drot dself dcamera dpoint dresiduals ds)
      in \<not> is_finite (rd s' dresiduals 0) \<and> \<not> is_finite (rd s' dresiduals 1)))"
proof (intro conjI impI)
  show "fst (operator_call rot self camera point residuals s) = True"
    by (rule operator_call_flag)
next
  assume A: "is_finite (rd ds dcamera 6) \<and> is_finite (observed_x dself) \<and>
     is_finite (observed_y dself) \<and>
     (let p = transformed drot (rd ds dcamera) (rd ds dpoint)
      in is_finite (p ! 0) \<and> is_finite (p ! 1) \<and> p ! 2 = 0)"
  then have f: "is_finite (rd ds dcamera 6)"
    and o: "is_finite (observed_x dself)" "is_finite (observed_y dself)"
    and p: "is_finite (transformed drot (rd ds dcamera) (rd ds dpoint) ! 0)"
      "is_finite (transformed drot (rd ds dcamera) (rd ds dpoint) ! 1)"
      "transformed drot (rd ds dcamera) (rd ds dpoint) ! 2 = 0"
    by (simp_all add: Let_def)
  show "let s' = snd (operator_call drot dself dcamera dpoint dresiduals ds)
      in \<not> is_finite (rd s' dresiduals 0) \<and> \<not> is_finite (rd s' dresiduals 1)"
    unfolding Let_def
  proof (rule depth_zero_residuals [where F = is_finite])
    show "\<And>a. is_finite a \<Longrightarrow> \<not> is_finite (a / 0)"
      by (rule is_finite_ops(1))
    show "\<And>a b. is_finite a \<Longrightarrow> \<not> is_finite b \<Longrightarrow> \<not> is_finite (a * b)"
      by (rule is_finite_ops(2))
    show "\<And>a b. \<not> is_finite a \<Longrightarrow> is_finite b \<Longrightarrow> \<not> is_finite (a - b)"
      by (rule is_finite_ops(3))
  qed (rule f o p)+
qed

theorem C10_returns_true_witness:
  "is_finite (Finite 3) \<and> is_finite (Finite 1) \<and> is_finite (Finite 4) \<and>
   transformed double_rotate
     (rd (state_of NaN [Finite 0, Finite 0, Finite 0, Finite 0, Finite 0, Finite 0, Finite 3,
                        Finite 4, Finite 1, Finite 0]) 0)
     (rd (state_of NaN [Finite 0, Finite 0, Finite 0, Finite 0, Finite 0, Finite 0, Finite 3,
                        Finite 4, Finite 1, Finite 0]) 7) = [Finite 4, Finite 1, 0] \<and>
   fst (operator_call double_rotate \<lparr>observed_x = Finite 3, observed_y = Finite 1\<rparr> 0 7 10
          (state_of NaN [Finite 0, Finite 0, Finite 0, Finite 0, Finite 0, Finite 0, Finite 3,
                         Finite 4, Finite 1, Finite 0])) = True \<and>
   \<not> is_finite
       (rd (snd (operator_call double_rotate \<lparr>observed_x = Finite 3, observed_y = Finite 1\<rparr>
                   0 7 10
                   (state_of NaN [Finite 0, Finite 0, Finite 0, Finite 0, Finite 0, Finite 0,
                                  Finite 3, Finite 4, Finite 1, Finite 0]))) 10 0) \<and>
   \<not> is_finite
       (rd (snd (operator_call double_rotate \<lparr>observed_x = Finite 3, observed_y = Finite 1\<rparr>
                   0 7 10
                   (state_of NaN [Finite 0, Finite 0, Finite 0, Finite 0, Finite 0, Finite 0,
                                  Finite 3, Finite 4, Finite 1, Finite 0]))) 10 1) \<and>
   transformed double_rotate
     (rd (state_of NaN [Finite 0, Finite 0, Finite 0, Finite 0, Finite 0, Finite 0, Finite 3,
                        Finite 4, Finite 1, Finite (- 2)]) 0)
     (rd (state_of NaN [Finite 0, Finite 0, Finite 0, Finite 0, Finite 0, Finite 0, Finite 3,
                        Finite 4, Finite 1, Finite (- 2)]) 7) ! 2 = Finite (- 2) \<and>
   fst (operator_call double_rotate \<lparr>observed_x = Finite 3, observed_y = Finite 1\<rparr> 0 7 10
          (state_of NaN [Finite 0, Finite 0, Finite 0, Finite 0, Finite 0, Finite 0, Finite 3,
                         Finite 4, Finite 1, Finite (- 2)])) = True"
proof -
  let ?s = "state_of NaN [Finite 0, Finite 0, Finite 0, Finite 0, Finite 0, Finite 0, Finite 3,
                          Finite 4, Finite 1, Finite 0]"
  let ?n = "state_of NaN [Finite 0, Finite 0, Finite 0, Finite 0, Finite 0, Finite 0, Finite 3,
                          Finite 4, Finite 1, Finite (- 2)]"
  let ?o = "\<lparr>observed_x = Finite 3, observed_y = Finite 1\<rparr>"
  have t: "transformed double_rotate (rd ?s 0) (rd ?s 7) = [Finite 4, Finite 1, 0]"
    by (simp add: transformed_eq rd_state_of double_rotate_zero to_double_values double_ops)
  have tn: "transformed double_rotate (rd ?n 0) (rd ?n 7) ! 2 = Finite (- 2)"
    by (simp add: transformed_eq rd_state_of double_rotate_zero to_double_values double_ops)
  have hyp: "is_finite (rd ?s 0 6) \<and> is_finite (observed_x ?o) \<and> is_finite (observed_y ?o) \<and>
     (let p = transformed double_rotate (rd ?s 0) (rd ?s 7)
      in is_finite (p ! 0) \<and> is_finite (p ! 1) \<and> p ! 2 = 0)"
    by (simp add: t rd_state_of)
  note T = C10_returns_true [of double_rotate ?o 0 7 10 ?s ?s 0 ?o double_rotate 7 10]
  note flag = T [THEN conjunct1]
  note res = T [THEN conjunct2, THEN mp, OF hyp, unfolded Let_def]
  note flagn = C10_returns_true [of double_rotate ?o 0 7 10 ?n ?s 0 ?o double_rotate 7 10,
      THEN conjunct1]
  show ?thesis
    using flag flagn res t tn by simp
qed

section \<open>Properties of the problem store\<close>

lemma for_loop_fold: "for_loop n body = fold body [0..n - 1]"
  by (simp add: for_loop_def fun_eq_iff)

lemma fold_push_camera:
  "fold (push_camera r2aa d) js P =
     P\<lparr>parameters_m := parameters_m P @ concat (map (camera_vector r2aa d) js)\<rparr>"
  by (induction js arbitrary: P) (simp_all add: push_camera_def)

lemma fold_push_point:
  "fold (push_point d) js P =
     P\<lparr>parameters_m := parameters_m P @ concat (map (point_vector d) js)\<rparr>"
  by (induction js arbitrary: P) (simp_all add: push_point_def)

lemma fold_add_observation:
  "fold (\<lambda>j. add_observation j i (x j i) ppx ppy) js P =
     P\<lparr>camera_index_m := camera_index_m P @ js,
       point_index_m := point_index_m P @ map (\<lambda>j. i) js,
       observations_m := observations_m P @
          concat (map (\<lambda>j. [fst (x j i) - ppx, snd (x j i) - ppy]) js)\<rparr>"
  by (induction js arbitrary: P) (simp_all add: add_observation_def)

lemma fold_fill:
  "fold (\<lambda>i. fold (\<lambda>j. add_observation j i (x j i) ppx ppy) js) is P =
     P\<lparr>camera_index_m := camera_index_m P @ concat (map (\<lambda>i. js) is),
       point_index_m := point_index_m P @ concat (map (\<lambda>i. map (\<lambda>j. i) js) is),
       observations_m := observations_m P @
          concat (map (\<lambda>i. concat (map (\<lambda>j. [fst (x j i) - ppx, snd (x j i) - ppy]) js)) is)\<rparr>"
  by (induction "is" arbitrary: P) (simp_all add: fold_add_observation)

lemma build_problem_eq:
  "build_problem nviews npoints ppx ppy r2aa d =
     \<lparr>num_cameras_m = nviews, num_points_m = npoints,
      num_observations_m = nviews * npoints,
      num_parameters_m = 7 * nviews + 3 * npoints,
      point_index_m = concat (map (\<lambda>i. map (\<lambda>j. i) [0..nviews - 1]) [0..npoints - 1]),
      camera_index_m = concat (map (\<lambda>i. [0..nviews - 1]) [0..npoints - 1]),
      observations_m =
        concat (map (\<lambda>i. concat (map (\<lambda>j. [fst (d_x d j i) - ppx, snd (d_x d j i) - ppy])
                                   [0..nviews - 1])) [0..npoints - 1]),
      parameters_m = concat (map (camera_vector r2aa d) [0..nviews - 1]) @
                     concat (map (point_vector d) [0..npoints - 1])\<rparr>"
  by (simp add: build_problem_def fill_observations_def for_loop_fold fold_fill
      fold_push_camera fold_push_point configure_def)

lemma block_concat:
  "(\<And>x. x \<in> set xs \<Longrightarrow> length (f x) = m) \<Longrightarrow> j < length xs \<Longrightarrow>
     take m (drop (m * j) (concat (map f xs))) = f (xs ! j)"
proof (induction xs arbitrary: j)
  case Nil
  then show ?case by simp
next
  case (Cons a xs)
  show ?case
  proof (cases j)
    case 0
    then show ?thesis using Cons.prems by simp
  next
    case (Suc k)
    then show ?thesis using Cons by (simp add: add.commute)
  qed
qed

lemma length_concat_const:
  "(\<And>x. x \<in> set xs \<Longrightarrow> length (f x) = m) \<Longrightarrow> length (concat (map f xs)) = m * length xs"
  by (induction xs) simp_all

lemma length_camera_vector [simp]: "length (camera_vector r2aa d j) = 7"
  by (simp add: camera_vector_def split: prod.splits)

lemma length_point_vector [simp]: "length (point_vector d i) = 3"
  by (simp add: point_vector_def split: prod.splits)


lemma upto_0_2: "[0..2::int] = [0, 1, 2]"
  by (simp add: upto.simps)

lemma upto_0_5: "[0..5::int] = [0, 1, 2, 3, 4, 5]"
  by (simp add: upto.simps)

lemma upto_0_17: "[0..17::int] = [0, 1, 2, 3, 4, 5, 6, 7, 8, 9, 10, 11, 12, 13, 14, 15, 16, 17]"
  by (simp add: upto.simps)

lemma main_problem_eq:
  "main_problem r2aa d =
     \<lparr>num_cameras_m = 3, num_points_m = 6, num_observations_m = 18, num_parameters_m = 39,
      point_index_m = [0,0,0, 1,1,1, 2,2,2, 3,3,3, 4,4,4, 5,5,5],
      camera_index_m = [0,1,2, 0,1,2, 0,1,2, 0,1,2, 0,1,2, 0,1,2],
      observations_m =
        concat (map (\<lambda>i. concat (map (\<lambda>j. [fst (d_x d j i) - 500, snd (d_x d j i) - 500])
                                   [0, 1, 2])) [0, 1, 2, 3, 4, 5]),
      parameters_m = concat (map (camera_vector r2aa d) [0, 1, 2]) @
                     concat (map (point_vector d) [0, 1, 2, 3, 4, 5])\<rparr>"
  by (simp add: main_problem_def build_problem_eq upto_0_2 upto_0_5)

lemma length_cameras:
  "0 \<le> n \<Longrightarrow> length (concat (map (camera_vector r2aa d) [0..n - 1])) = 7 * nat n"
  by (simp add: length_concat_const [where m = 7])

lemma length_points:
  "0 \<le> n \<Longrightarrow> length (concat (map (point_vector d) [0..n - 1])) = 3 * nat n"
  by (simp add: length_concat_const [where m = 3])

lemma camera_block_of_concat:
  assumes "0 \<le> j" and "j < n"
  shows "block (concat (map (camera_vector r2aa d) [0..n - 1]) @ rest) (7 * j) 7 =
           camera_vector r2aa d j"
proof -
  let ?cams = "concat (map (camera_vector r2aa d) [0..n - 1])"
  have len: "length ?cams = 7 * nat n"
    using assms by (simp add: length_cameras)
  have j: "nat j < length [0..n - 1]"
    using assms by simp
  have nth: "[0..n - 1] ! nat j = j"
    using assms by (simp add: nth_upto)
  have "take 7 (drop (7 * nat j) ?cams) = camera_vector r2aa d ([0..n - 1] ! nat j)"
    using j by (intro block_concat) simp_all
  moreover have "7 \<le> length (drop (7 * nat j) ?cams)"
    using assms len by simp
  moreover have "nat (7 * j) = 7 * nat j"
    using assms by (simp add: nat_mult_distrib)
  ultimately show ?thesis
    using len assms by (simp add: block_def nth)
qed

lemma point_block_of_concat:
  assumes "0 \<le> i" and "i < n" and "int (length cams) = off"
  shows "block (cams @ concat (map (point_vector d) [0..n - 1])) (off + 3 * i) 3 =
           point_vector d i"
proof -
  let ?pts = "concat (map (point_vector d) [0..n - 1])"
  have i: "nat i < length [0..n - 1]"
    using assms by simp
  have nth: "[0..n - 1] ! nat i = i"
    using assms by (simp add: nth_upto)
  have "take 3 (drop (3 * nat i) ?pts) = point_vector d ([0..n - 1] ! nat i)"
    using i by (intro block_concat) simp_all
  moreover have "nat (off + 3 * i) = length cams + 3 * nat i"
    using assms by (simp add: nat_add_distrib nat_mult_distrib)
  ultimately show ?thesis
    by (simp add: block_def nth)
qed

lemma camera_index_built:
  assumes "0 \<le> nviews" and "0 \<le> npoints"
  shows "length (concat (map (\<lambda>i. [0..nviews - 1]) [0..npoints - 1])) = nat (nviews * npoints)"
    and "set (concat (map (\<lambda>i. [0..nviews - 1]) [0..npoints - 1])) \<subseteq> {0..nviews - 1}"
  using assms by (auto simp add: length_concat_const [where m = "nat nviews"] nat_mult_distrib)

lemma point_index_built:
  assumes "0 \<le> nviews" and "0 \<le> npoints"
  shows "length (concat (map (\<lambda>i. map (\<lambda>j. i) [0..nviews - 1]) [0..npoints - 1])) =
           nat (nviews * npoints)"
    and "set (concat (map (\<lambda>i. map (\<lambda>j. i) [0..nviews - 1]) [0..npoints - 1])) \<subseteq> {0..npoints - 1}"
  using assms by (auto simp add: length_concat_const [where m = "nat nviews"] nat_mult_distrib)

lemma address_of_first_eq: "address_of_first v = (if v = [] then None else Some 0)"
  by (simp add: address_of_first_def at_index_def)

lemma camera_handle:
  assumes "0 \<le> k" and "k < int (length (camera_index_m P))"
    and "int_range (7 * (camera_index_m P ! nat k))" and "parameters_m P \<noteq> []"
  shows "mutable_camera_for_observation P k = Some (7 * (camera_index_m P ! nat k))"
  using assms
  by (simp add: mutable_camera_for_observation_def at_index_def int_mul_def mutable_cameras_def
      address_of_first_eq mult.commute)

lemma point_handle:
  assumes "0 \<le> k" and "k < int (length (point_index_m P))"
    and "int_range (7 * num_cameras_m P)" and "int_range (3 * (point_index_m P ! nat k))"
    and "parameters_m P \<noteq> []"
  shows "mutable_point_for_observation P k =
           Some (7 * num_cameras_m P + 3 * (point_index_m P ! nat k))"
  using assms
  by (simp add: mutable_point_for_observation_def mutable_points_def at_index_def int_mul_def
      address_of_first_eq mult.commute)

text \<open>
  C5. In the store \<^verbatim>\<open>main\<close> builds for \<open>nviews\<close> cameras and \<open>npoints\<close> points, the
  parameters are one vector of \<open>7 * nviews + 3 * npoints\<close> scalars with every camera before
  every point: the 7 scalars from offset \<open>7 * j\<close> are the vector of camera \<open>j\<close>, the points
  start at offset \<open>7 * nviews\<close> and the 3 scalars from offset \<open>7 * nviews + 3 * i\<close> are point
  \<open>i\<close>. For every observation \<open>k\<close> the camera handle is the offset \<open>7 * camera_index_[k]\<close>
  and the point handle the offset \<open>7 * num_cameras + 3 * point_index_[k]\<close>. The cameras
  start at offset 0; only in the store with no camera and no point, whose vector is empty,
  are \<^verbatim>\<open>mutable_cameras()\<close> and \<^verbatim>\<open>mutable_points()\<close> undefined.
\<close>

theorem C5_layout:
  assumes "0 \<le> nviews" and "0 \<le> npoints"
    and "int_range (nviews * npoints)" and "int_range (7 * nviews + 3 * npoints)"
    and "P = build_problem nviews npoints ppx ppy r2aa d"
  shows "length (parameters_m P) = nat (7 * nviews + 3 * npoints) \<and>
         mutable_cameras P = (if nviews = 0 \<and> npoints = 0 then None else Some 0) \<and>
         mutable_points P = (if nviews = 0 \<and> npoints = 0 then None else Some (7 * nviews)) \<and>
         (\<forall>j. 0 \<le> j \<and> j < nviews \<longrightarrow>
              block (parameters_m P) (7 * j) 7 = camera_vector r2aa d j) \<and>
         (\<forall>i. 0 \<le> i \<and> i < npoints \<longrightarrow>
              block (parameters_m P) (7 * nviews + 3 * i) 3 = point_vector d i) \<and>
         (\<forall>k. 0 \<le> k \<and> k < num_observations P \<longrightarrow>
              mutable_camera_for_observation P k = Some (7 * (camera_index_m P ! nat k)) \<and>
              mutable_point_for_observation P k =
                Some (7 * nviews + 3 * (point_index_m P ! nat k)))"
proof -
  have r7: "int_range (7 * nviews)"
    using assms(1,2,4) by (simp add: int_range_def)
  have len: "length (parameters_m P) = nat (7 * nviews + 3 * npoints)"
    using assms(1,2) by (simp add: assms(5) build_problem_eq length_cameras length_points
        nat_add_distrib nat_mult_distrib)
  have "length (parameters_m P) = 0 \<longleftrightarrow> nviews = 0 \<and> npoints = 0"
    using assms(1,2) unfolding len by auto
  then have empty: "parameters_m P = [] \<longleftrightarrow> nviews = 0 \<and> npoints = 0"
    by simp
  have cams: "mutable_cameras P = (if nviews = 0 \<and> npoints = 0 then None else Some 0)"
    by (simp add: mutable_cameras_def address_of_first_eq empty)
  have nc: "num_cameras_m P = nviews"
    by (simp add: assms(5) build_problem_eq)
  have pts: "mutable_points P = (if nviews = 0 \<and> npoints = 0 then None else Some (7 * nviews))"
    using r7 by (simp add: mutable_points_def address_of_first_eq empty nc int_mul_def)
  have cam: "block (parameters_m P) (7 * j) 7 = camera_vector r2aa d j"
    if "0 \<le> j" "j < nviews" for j
    using that by (simp add: assms(5) build_problem_eq camera_block_of_concat)
  have pt: "block (parameters_m P) (7 * nviews + 3 * i) 3 = point_vector d i"
    if "0 \<le> i" "i < npoints" for i
    using that assms(1)
    by (simp add: assms(5) build_problem_eq point_block_of_concat length_cameras)
  have hd: "mutable_camera_for_observation P k = Some (7 * (camera_index_m P ! nat k)) \<and>
            mutable_point_for_observation P k =
              Some (7 * nviews + 3 * (point_index_m P ! nat k))"
    if k: "0 \<le> k" "k < num_observations P" for k
  proof -
    have kn: "k < nviews * npoints"
      using k by (simp add: assms(5) build_problem_eq num_observations_def)
    have lc: "length (camera_index_m P) = nat (nviews * npoints)"
      and lp: "length (point_index_m P) = nat (nviews * npoints)"
      using assms(1,2)
      by (simp_all add: assms(5) build_problem_eq camera_index_built point_index_built)
    have "camera_index_m P ! nat k \<in> set (camera_index_m P)"
      using k kn lc by (intro nth_mem) simp
    then have c: "0 \<le> camera_index_m P ! nat k" "camera_index_m P ! nat k < nviews"
      using camera_index_built(2) [OF assms(1,2)]
      by (auto simp add: assms(5) build_problem_eq)
    have "point_index_m P ! nat k \<in> set (point_index_m P)"
      using k kn lp by (intro nth_mem) simp
    then have q: "0 \<le> point_index_m P ! nat k" "point_index_m P ! nat k < npoints"
      using point_index_built(2) [OF assms(1,2)]
      by (auto simp add: assms(5) build_problem_eq)
    have ne: "parameters_m P \<noteq> []"
      using k kn assms(1,2) by (auto simp add: empty)
    have "int_range (7 * (camera_index_m P ! nat k))"
      using c r7 assms(1) by (simp add: int_range_def)
    moreover have "int_range (3 * (point_index_m P ! nat k))"
      using q assms(1,2,4) by (simp add: int_range_def)
    ultimately show ?thesis
      using k kn lc lp r7 ne camera_handle [of k P] point_handle [of k P] by (simp add: nc)
  qed
  show ?thesis
    using len cams pts cam pt hd by simp
qed


theorem C5_layout_witness:
  "(0::int) \<le> 2 \<and> (0::int) \<le> 3 \<and> int_range (2 * 3) \<and> int_range (7 * 2 + 3 * 3) \<and>
   length (parameters_m (build_problem 2 3 500 500 (\<lambda>r. r) sample_data)) = 23 \<and>
   mutable_points (build_problem 2 3 500 500 (\<lambda>r. r) sample_data) = Some 14 \<and>
   block (parameters_m (build_problem 2 3 500 500 (\<lambda>r. r) sample_data)) 7 7 =
     [1, 0, 0, 0, 1, 1, 101] \<and>
   block (parameters_m (build_problem 2 3 500 500 (\<lambda>r. r) sample_data)) 20 3 = [2, 2, 5] \<and>
   mutable_camera_for_observation (build_problem 2 3 500 500 (\<lambda>r. r) sample_data) 5 = Some 7 \<and>
   mutable_point_for_observation (build_problem 2 3 500 500 (\<lambda>r. r) sample_data) 5 = Some 20"
proof -
  let ?P = "build_problem 2 3 500 500 (\<lambda>r. r) sample_data"
  have h: "(0::int) \<le> 2" "(0::int) \<le> 3" "int_range (2 * 3)" "int_range (7 * 2 + 3 * 3)"
    by (simp_all add: int_range_def)
  note L = C5_layout [OF h refl, of 500 500 "\<lambda>r. r" sample_data]
  have idx: "camera_index_m ?P ! 5 = 1" "point_index_m ?P ! 5 = 2"
    "num_observations ?P = 6"
    by (simp_all add: build_problem_eq num_observations_def upto.simps)
  have vec: "camera_vector (\<lambda>r. r) sample_data 1 = [1, 0, 0, 0, 1, 1, 101]"
    "point_vector sample_data 2 = [2, 2, 5]"
    by (simp_all add: camera_vector_def point_vector_def sample_data_def)
  from L have cam: "\<forall>j. 0 \<le> j \<and> j < 2 \<longrightarrow>
      block (parameters_m ?P) (7 * j) 7 = camera_vector (\<lambda>r. r) sample_data j"
    and pt: "\<forall>i. 0 \<le> i \<and> i < 3 \<longrightarrow>
      block (parameters_m ?P) (7 * 2 + 3 * i) 3 = point_vector sample_data i"
    and hd: "\<forall>k. 0 \<le> k \<and> k < num_observations ?P \<longrightarrow>
      mutable_camera_for_observation ?P k = Some (7 * (camera_index_m ?P ! nat k)) \<and>
      mutable_point_for_observation ?P k = Some (7 * 2 + 3 * (point_index_m ?P ! nat k))"
    and len: "length (parameters_m ?P) = nat (7 * 2 + 3 * 3)"
    and pts: "mutable_points ?P = (if (2::int) = 0 \<and> (3::int) = 0 then None else Some (7 * 2))"
    by blast+
  have "block (parameters_m ?P) 7 7 = [1, 0, 0, 0, 1, 1, 101]"
    using cam [rule_format, of 1] by (simp add: vec)
  moreover have "block (parameters_m ?P) 20 3 = [2, 2, 5]"
    using pt [rule_format, of 2] by (simp add: vec)
  moreover have "mutable_camera_for_observation ?P 5 = Some 7"
    "mutable_point_for_observation ?P 5 = Some 20"
    using hd [rule_format, of 5] by (simp_all add: idx)
  moreover have "length (parameters_m ?P) = 23" "mutable_points ?P = Some 14"
    using len pts by simp_all
  ultimately show ?thesis
    using h by simp
qed

lemma upto_0_18:
  "[0..18::int] = [0, 1, 2, 3, 4, 5, 6, 7, 8, 9, 10, 11, 12, 13, 14, 15, 16, 17, 18]"
  by (simp add: upto.simps)

lemma sample_store_eq:
  "sample_store =
     \<lparr>num_cameras_m = 3, num_points_m = 6, num_observations_m = 18, num_parameters_m = 39,
      point_index_m = [0,0,0, 1,1,1, 2,2,2, 3,3,3, 4,4,4, 5,5,5],
      camera_index_m = [0,1,2, 0,1,2, 0,1,2, 0,1,2, 0,1,2, 0,1,2],
      observations_m =
        [0, 0, 1, 0, 2, 0, 0, 1, 1, 1, 2, 1, 0, 2, 1, 2, 2, 2,
         0, 3, 1, 3, 2, 3, 0, 4, 1, 4, 2, 4, 0, 5, 1, 5, 2, 5],
      parameters_m =
        [0, 0, 0, 0, 0, 1, 100, 1, 0, 0, 0, 1, 1, 101, 2, 0, 0, 0, 2, 1, 102,
         0, 0, 5, 1, 1, 5, 2, 2, 5, 3, 3, 5, 4, 4, 5, 5, 5, 5]\<rparr>"
  by (simp add: sample_store_def main_problem_eq sample_data_def camera_vector_def
      point_vector_def)

text \<open>
  C3, as stated, fails: nothing is checked when an observation is recorded or when its
  handles are taken. The filled store of \<^verbatim>\<open>main\<close> (6 points, 39 scalars) takes a
  nineteenth observation with point index 6; with the count of observations set to 19, the
  loop that adds the residual blocks runs through and gives the last block the camera
  handle 14 and the point handle 39, one past the last scalar of the store.
\<close>

theorem C3_counterexample:
  "num_points_m sample_store = 6 \<and>
   length (parameters_m (add_observation 2 6 (510, 520) 500 500 sample_store)) = 39 \<and>
   at_index (camera_index_m (add_observation 2 6 (510, 520) 500 500 sample_store)) 18 = Some 2 \<and>
   at_index (point_index_m (add_observation 2 6 (510, 520) 500 500 sample_store)) 18 = Some 6 \<and>
   mutable_camera_for_observation (add_observation 2 6 (510, 520) 500 500 sample_store) 18 =
     Some 14 \<and>
   mutable_point_for_observation (add_observation 2 6 (510, 520) 500 500 sample_store) 18 =
     Some 39 \<and>
   map_option length
     (add_residual_blocks
        ((add_observation 2 6 (510, 520) 500 500 sample_store)\<lparr>num_observations_m := 19\<rparr>)) =
     Some 19 \<and>
   map_option last
     (add_residual_blocks
        ((add_observation 2 6 (510, 520) 500 500 sample_store)\<lparr>num_observations_m := 19\<rparr>)) =
     Some \<lparr>cost_function = \<lparr>observed_x = 10, observed_y = 20\<rparr>,
           camera_block = 14, point_block = 39\<rparr>"
  by (simp add: sample_store_eq add_observation_def add_residual_blocks_def for_loop_def
      upto_0_18 num_observations_def new_residual_block_def at_index_def observations_def
      mutable_camera_for_observation_def mutable_point_for_observation_def
      mutable_points_def mutable_cameras_def address_of_first_def int_mul_def int_range_def)

text \<open>
  C3, amended. The store does not validate indices. Recording an observation appends its
  camera index, its point index and its centred image point whatever the indices are, in
  range or not, and changes neither the parameters nor any of the four counts; on a store
  that holds parameters the handles of the observation are then computed unchecked, as
  \<open>7 * camera_index\<close> and \<open>7 * num_cameras + 3 * point_index\<close>. Indices in range are the
  caller's work: the loops of \<^verbatim>\<open>main\<close> only record camera indices in \<open>[0, nviews)\<close> and
  point indices in \<open>[0, npoints)\<close>.
\<close>

theorem C3_no_validation:
  "(let P' = add_observation j i pt ppx ppy P; k = int (length (camera_index_m P)) in
      camera_index_m P' = camera_index_m P @ [j] \<and>
      point_index_m P' = point_index_m P @ [i] \<and>
      observations_m P' = observations_m P @ [fst pt - ppx, snd pt - ppy] \<and>
      parameters_m P' = parameters_m P \<and>
      num_cameras_m P' = num_cameras_m P \<and> num_points_m P' = num_points_m P \<and>
      num_observations_m P' = num_observations_m P \<and>
      num_parameters_m P' = num_parameters_m P \<and>
      (parameters_m P \<noteq> [] \<and> length (point_index_m P) = length (camera_index_m P) \<and>
       int_range (j * 7) \<and> int_range (i * 3) \<and> int_range (7 * num_cameras_m P) \<longrightarrow>
         mutable_camera_for_observation P' k = Some (7 * j) \<and>
         mutable_point_for_observation P' k = Some (7 * num_cameras_m P + 3 * i))) \<and>
   set (camera_index_m (build_problem nviews npoints ppx ppy r2aa d)) \<subseteq> {0..nviews - 1} \<and>
   set (point_index_m (build_problem nviews npoints ppx ppy r2aa d)) \<subseteq> {0..npoints - 1}"
proof -
  let ?P' = "add_observation j i pt ppx ppy P"
  let ?k = "int (length (camera_index_m P))"
  have fields: "camera_index_m ?P' = camera_index_m P @ [j]"
    "point_index_m ?P' = point_index_m P @ [i]"
    "observations_m ?P' = observations_m P @ [fst pt - ppx, snd pt - ppy]"
    "parameters_m ?P' = parameters_m P"
    "num_cameras_m ?P' = num_cameras_m P" "num_points_m ?P' = num_points_m P"
    "num_observations_m ?P' = num_observations_m P"
    "num_parameters_m ?P' = num_parameters_m P"
    by (simp_all add: add_observation_def)
  have handles: "mutable_camera_for_observation ?P' ?k = Some (7 * j) \<and>
      mutable_point_for_observation ?P' ?k = Some (7 * num_cameras_m P + 3 * i)"
    if ne: "parameters_m P \<noteq> []"
      and len: "length (point_index_m P) = length (camera_index_m P)"
      and r: "int_range (j * 7)" "int_range (i * 3)" "int_range (7 * num_cameras_m P)"
  proof -
    have "(point_index_m P @ [i]) ! length (camera_index_m P) = i"
      using len by (metis nth_append_length)
    then show ?thesis
      using ne len r
      by (simp add: fields mutable_camera_for_observation_def
          mutable_point_for_observation_def mutable_points_def mutable_cameras_def
          address_of_first_eq at_index_def int_mul_def mult.commute)
  qed
  have main: "set (camera_index_m (build_problem nviews npoints ppx ppy r2aa d)) \<subseteq> {0..nviews - 1}"
    "set (point_index_m (build_problem nviews npoints ppx ppy r2aa d)) \<subseteq> {0..npoints - 1}"
    by (auto simp add: build_problem_eq)
  show ?thesis
    using fields handles main by (simp add: Let_def)
qed

theorem C3_no_validation_witness:
  "parameters_m sample_store \<noteq> [] \<and>
   length (point_index_m sample_store) = length (camera_index_m sample_store) \<and>
   int_range (3 * 7) \<and> int_range (6 * 3) \<and> int_range (7 * num_cameras_m sample_store) \<and>
   (let P' = add_observation 3 6 (510, 520) 500 500 sample_store
    in camera_index_m P' = camera_index_m sample_store @ [3] \<and>
       point_index_m P' = point_index_m sample_store @ [6] \<and>
       observations_m P' = observations_m sample_store @ [10, 20] \<and>
       parameters_m P' = parameters_m sample_store \<and>
       num_cameras_m P' = 3 \<and> num_points_m P' = 6 \<and>
       num_observations_m P' = 18 \<and> num_parameters_m P' = 39 \<and>
       mutable_camera_for_observation P' 18 = Some 21 \<and>
       mutable_point_for_observation P' 18 = Some 39) \<and>
   set (camera_index_m (build_problem 3 6 500 500 (\<lambda>r. r) sample_data)) \<subseteq> {0..2} \<and>
   set (point_index_m (build_problem 3 6 500 500 (\<lambda>r. r) sample_data)) \<subseteq> {0..5}"
proof -
  have h: "parameters_m sample_store \<noteq> []"
    "length (point_index_m sample_store) = length (camera_index_m sample_store)"
    "int_range (3 * 7)" "int_range (6 * 3)" "int_range (7 * num_cameras_m sample_store)"
    by (simp_all add: sample_store_eq int_range_def)
  have e: "num_cameras_m sample_store = 3" "num_points_m sample_store = 6"
    "num_observations_m sample_store = 18" "num_parameters_m sample_store = 39"
    "int (length (camera_index_m sample_store)) = 18"
    by (simp_all add: sample_store_eq)
  from C3_no_validation [of 3 6 "(510, 520)" 500 500 sample_store 3 6 "\<lambda>r. r" sample_data]
  show ?thesis
    using h by (simp add: Let_def e)
qed

text \<open>
  C9. With 3 cameras, 6 points and one observation for each pair, as \<^verbatim>\<open>main\<close> builds the
  problem from any data set, the loop that adds the residual blocks runs without a read
  out of range and adds exactly 18 blocks, \<open>num_observations = 3 * 6\<close>. Listed in order, the
  block of point \<open>i\<close> and camera \<open>j\<close> has the camera handle \<open>7 * j\<close> with \<open>j\<close> in \<open>[0, 3)\<close>
  and the point handle \<open>21 + 3 * i\<close> with \<open>i\<close> in \<open>[0, 6)\<close>, inside the 39 scalars of the
  store.
\<close>

theorem C9_eighteen_residual_blocks:
  "(case add_residual_blocks (main_problem r2aa d) of
      None \<Rightarrow> False
    | Some blocks \<Rightarrow>
        length blocks = 18 \<and>
        num_observations (main_problem r2aa d) = 3 * 6 \<and>
        length (parameters_m (main_problem r2aa d)) = 39 \<and>
        map (\<lambda>b. (camera_block b, point_block b)) blocks =
          [(7 * 0, 21 + 3 * 0), (7 * 1, 21 + 3 * 0), (7 * 2, 21 + 3 * 0),
           (7 * 0, 21 + 3 * 1), (7 * 1, 21 + 3 * 1), (7 * 2, 21 + 3 * 1),
           (7 * 0, 21 + 3 * 2), (7 * 1, 21 + 3 * 2), (7 * 2, 21 + 3 * 2),
           (7 * 0, 21 + 3 * 3), (7 * 1, 21 + 3 * 3), (7 * 2, 21 + 3 * 3),
           (7 * 0, 21 + 3 * 4), (7 * 1, 21 + 3 * 4), (7 * 2, 21 + 3 * 4),
           (7 * 0, 21 + 3 * 5), (7 * 1, 21 + 3 * 5), (7 * 2, 21 + 3 * 5)])"
  by (simp add: main_problem_eq add_residual_blocks_def for_loop_def upto_0_17
      num_observations_def new_residual_block_def at_index_def observations_def
      mutable_camera_for_observation_def mutable_point_for_observation_def
      mutable_points_def mutable_cameras_def address_of_first_def int_mul_def int_range_def)

end
